theory Spec2Isabelle
  imports Complex_Main
begin

section \<open>Shared data model\<close>

text \<open>
  The six games of \<^verbatim>\<open>src/frontend/src/games\<close> are React components whose
  \<^verbatim>\<open>detectFunction\<close> is called once per rendered frame by \<^verbatim>\<open>GameWrapper\<close>.
  Each game keeps its round state in \<^verbatim>\<open>useRef\<close> cells; the model turns the cells
  of one game into a record and \<^verbatim>\<open>detectFunction\<close> into a function from the state
  and the frame's inputs to the new state and the list of \<^verbatim>\<open>setScore\<close> calls.

  JavaScript numbers are modelled as follows: coordinates, sizes and \<^verbatim>\<open>Math.random()\<close>
  are \<^typ>\<open>real\<close>, \<^verbatim>\<open>Date.now()\<close> is an \<^typ>\<open>int\<close> of milliseconds, array indices
  and counters are \<^typ>\<open>nat\<close> or \<^typ>\<open>int\<close>. The rounding of the doubles is written out
  in the outline test \<^verbatim>\<open>isOnShape\<close> of ShapeTracing, whose verdict at the edge of the
  tolerance band depends on it; the other arithmetic is exact. Canvas drawing has no
  effect on the round state and is left out.
\<close>

record landmark =
  lx :: real
  ly :: real

type_synonym hand = "landmark list"

text \<open>Reading a property of \<^verbatim>\<open>undefined\<close> throws a \<^verbatim>\<open>TypeError\<close>.\<close>

datatype error = TypeError

text \<open>
  \<^verbatim>\<open>setScore(prev => prev + 1)\<close> and \<^verbatim>\<open>setScore(0)\<close>, the two ways the games call
  the score setter handed to them by \<^verbatim>\<open>GameWrapper\<close>.
\<close>

datatype score_update = Increment | SetTo nat

fun applyScore :: "score_update \<Rightarrow> nat \<Rightarrow> nat" where
  "applyScore Increment prev = prev + 1"
| "applyScore (SetTo v) prev = v"

definition applyScores :: "score_update list \<Rightarrow> nat \<Rightarrow> nat" where
  "applyScores us score = fold applyScore us score"

text \<open>
  What one call of \<^verbatim>\<open>detectFunction\<close> reads from its environment:
  \<^verbatim>\<open>Date.now()\<close>, the canvas size, the value of
  \<^verbatim>\<open>handLandmarker.detectForVideo(video, now)\<close> (\<open>None\<close> for a null result or a
  result without \<^verbatim>\<open>landmarks\<close>, otherwise the list of detected hands), and the
  values the successive calls of \<^verbatim>\<open>Math.random()\<close> return during the call.
\<close>

record frame =
  frame_now :: int
  canvas_width :: nat
  canvas_height :: nat
  detect_results :: "hand list option"
  math_random :: "nat \<Rightarrow> real"

text \<open>\<^verbatim>\<open>results?.landmarks?.length\<close> is truthy exactly when a hand was detected;
  the games then read \<^verbatim>\<open>results.landmarks[0]\<close>.\<close>

definition firstHand :: "frame \<Rightarrow> hand option" where
  "firstHand f =
     (case detect_results f of
        None \<Rightarrow> None
      | Some [] \<Rightarrow> None
      | Some (h # _) \<Rightarrow> Some h)"

text \<open>\<^verbatim>\<open>xs[i]\<close>: \<^verbatim>\<open>undefined\<close> (here \<open>None\<close>) outside the array.\<close>

definition item :: "'a list \<Rightarrow> int \<Rightarrow> 'a option" where
  "item xs i = (if 0 \<le> i \<and> i < int (length xs) then Some (xs ! nat i) else None)"

definition hypot :: "real \<Rightarrow> real \<Rightarrow> real" where
  "hypot a b = sqrt (a * a + b * b)"

text \<open>
  A JavaScript number is an IEEE 754 double, and every arithmetic operation returns the
  double nearest to its exact result. \<open>fl x\<close> is that double: 53 significant bits, the
  exponent not below \<open>-1022\<close>, and of two doubles equally near the one with the even
  significand. Overflow to \<^verbatim>\<open>Infinity\<close> is not modelled.
\<close>

definition roundHalfEven :: "real \<Rightarrow> int" where
  "roundHalfEven q =
     (let f = \<lfloor>q\<rfloor>;
          d = q - of_int f
      in if d < 1 / 2 then f
         else if 1 / 2 < d then f + 1
         else if even f then f else f + 1)"

definition fl :: "real \<Rightarrow> real" where
  "fl x =
     (if x = 0 then 0
      else let e = max \<lfloor>log 2 \<bar>x\<bar>\<rfloor> (- 1022);
               ulp = 2 powr (of_int e - 52)
           in of_int (roundHalfEven (x / ulp)) * ulp)"

text \<open>Short-circuit \<^verbatim>\<open>&&\<close> over operands that may throw.\<close>

definition andE :: "error + bool \<Rightarrow> error + bool \<Rightarrow> error + bool" where
  "andE a b = (case a of Inl e \<Rightarrow> Inl e | Inr False \<Rightarrow> Inr False | Inr True \<Rightarrow> b)"

definition bindE :: "error + 'a \<Rightarrow> ('a \<Rightarrow> error + 'b) \<Rightarrow> error + 'b" where
  "bindE m k = (case m of Inl e \<Rightarrow> Inl e | Inr v \<Rightarrow> k v)"

text \<open>\<^verbatim>\<open>p.x\<close> and \<^verbatim>\<open>p.y\<close> of an array element that may be \<^verbatim>\<open>undefined\<close>.\<close>

definition getX :: "landmark option \<Rightarrow> error + real" where
  "getX p = (case p of None \<Rightarrow> Inl TypeError | Some q \<Rightarrow> Inr (lx q))"

definition getY :: "landmark option \<Rightarrow> error + real" where
  "getY p = (case p of None \<Rightarrow> Inl TypeError | Some q \<Rightarrow> Inr (ly q))"

section \<open>ShapeTracing\<close>

datatype shape = Circle | Square

definition SHAPE_TYPES :: "shape list" where
  "SHAPE_TYPES = [Circle, Square]"

definition TOLERANCE :: real where
  "TOLERANCE = 25"

definition CHECKPOINTS :: nat where
  "CHECKPOINTS = 16"

record ShapeTracing_state =
  shapeTypeRef :: "shape option"
  checkpointsHitRef :: "nat set"
  trailPointsRef :: "(real \<times> real \<times> int) list"
  drawingStartedRef :: bool

text \<open>
  \<^verbatim>\<open>isOnShape\<close> reads \<^verbatim>\<open>shapeTypeRef.current\<close>, passed here as the first argument.
  Its subtractions, additions and divisions round to the nearest double, and
  \<^verbatim>\<open>Math.hypot\<close> is taken to return the double nearest to the exact value;
  \<^verbatim>\<open>Math.abs\<close> and the comparisons are exact.
\<close>

definition isOnShape :: "shape option \<Rightarrow> real \<Rightarrow> real \<Rightarrow> real \<Rightarrow> real \<Rightarrow> real \<Rightarrow> real \<Rightarrow> bool" where
  "isOnShape shapeType centerX centerY radius size' tipX tipY =
     (case shapeType of
        Some Circle \<Rightarrow>
          (let dist = fl (hypot (fl (tipX - centerX)) (fl (tipY - centerY)))
           in \<bar>fl (dist - radius)\<bar> < TOLERANCE)
      | Some Square \<Rightarrow>
          (let left = fl (centerX - fl (size' / 2));
               right = fl (centerX + fl (size' / 2));
               top = fl (centerY - fl (size' / 2));
               bottom = fl (centerY + fl (size' / 2));
               insideSquare =
                 (tipX \<ge> fl (left - TOLERANCE) \<and> tipX \<le> fl (right + TOLERANCE) \<and>
                  tipY \<ge> fl (top - TOLERANCE) \<and> tipY \<le> fl (bottom + TOLERANCE));
               nearEdge =
                 (\<bar>fl (tipX - left)\<bar> < TOLERANCE \<or> \<bar>fl (tipX - right)\<bar> < TOLERANCE \<or>
                  \<bar>fl (tipY - top)\<bar> < TOLERANCE \<or> \<bar>fl (tipY - bottom)\<bar> < TOLERANCE)
           in insideSquare \<and> nearEdge)
      | None \<Rightarrow> False)"

text \<open>The \<open>i\<close>-th checkpoint of the circle, as the loop body of \<^verbatim>\<open>checkCircleHit\<close>
  computes it.\<close>

definition circleCheckpoint :: "real \<Rightarrow> real \<Rightarrow> real \<Rightarrow> nat \<Rightarrow> real \<times> real" where
  "circleCheckpoint centerX centerY radius i =
     (let angle = (real i / real CHECKPOINTS) * pi * 2
      in (centerX + radius * cos angle, centerY + radius * sin angle))"

definition checkCircleHit :: "real \<Rightarrow> real \<Rightarrow> real \<Rightarrow> real \<Rightarrow> real \<Rightarrow> nat set \<Rightarrow> nat set" where
  "checkCircleHit centerX centerY radius tipX tipY hits =
     fold (\<lambda>i acc.
             let checkpoint = circleCheckpoint centerX centerY radius i;
                 dist = hypot (fst checkpoint - tipX) (snd checkpoint - tipY)
             in if dist < TOLERANCE then insert i acc else acc)
          [0..<CHECKPOINTS] hits"

text \<open>The array \<^verbatim>\<open>sides\<close> of \<^verbatim>\<open>checkSquareHit\<close>.\<close>

definition sides :: "real \<Rightarrow> real \<Rightarrow> real \<Rightarrow> (real \<times> real) list" where
  "sides centerX centerY size' =
     (let left = centerX - size' / 2;
          right = centerX + size' / 2;
          top = centerY - size' / 2;
          step = size' / (real CHECKPOINTS / 4)
      in [(left, top + step * 0), (left, top + step * 1),
          (left, top + step * 2), (left, top + step * 3),
          (left + step * 0, top), (left + step * 1, top),
          (left + step * 2, top), (left + step * 3, top),
          (right, top + step * 0), (right, top + step * 1),
          (right, top + step * 2), (right, top + step * 3)])"

definition checkSquareHit :: "real \<Rightarrow> real \<Rightarrow> real \<Rightarrow> real \<Rightarrow> real \<Rightarrow> nat set \<Rightarrow> nat set" where
  "checkSquareHit centerX centerY size' tipX tipY hits =
     fold (\<lambda>(idx, edge) acc.
             let dist = hypot (fst edge - tipX) (snd edge - tipY)
             in if dist < TOLERANCE then insert idx acc else acc)
          (enumerate 0 (sides centerX centerY size')) hits"

text \<open>Lines 68 to 75 of \<^verbatim>\<open>ShapeTracing.jsx\<close>: choose a shape when none is active.\<close>

definition ShapeTracing_chooseShape :: "ShapeTracing_state \<Rightarrow> frame \<Rightarrow> ShapeTracing_state" where
  "ShapeTracing_chooseShape s f =
     (if shapeTypeRef s = None then
        s\<lparr>shapeTypeRef := item SHAPE_TYPES \<lfloor>math_random f 0 * real (length SHAPE_TYPES)\<rfloor>,
          checkpointsHitRef := {},
          trailPointsRef := [],
          drawingStartedRef := False\<rparr>
      else s)"

text \<open>Lines 94 to 112: start the trail, record the trail point, test the checkpoints.\<close>

definition ShapeTracing_followTip ::
  "ShapeTracing_state \<Rightarrow> int \<Rightarrow> real \<Rightarrow> real \<Rightarrow> real \<Rightarrow> real \<Rightarrow> real \<Rightarrow> real \<Rightarrow> ShapeTracing_state" where
  "ShapeTracing_followTip s now centerX centerY dynamicRadius dynamicSize tipX tipY =
     (let s1 = (if \<not> drawingStartedRef s then
                  (if isOnShape (shapeTypeRef s) centerX centerY dynamicRadius dynamicSize tipX tipY
                   then s\<lparr>drawingStartedRef := True\<rparr> else s)
                else s);
          s2 = (if drawingStartedRef s1
                then s1\<lparr>trailPointsRef := trailPointsRef s1 @ [(tipX, tipY, now)]\<rparr>
                else s1)
      in case shapeTypeRef s2 of
           Some Circle \<Rightarrow>
             s2\<lparr>checkpointsHitRef :=
                  checkCircleHit centerX centerY dynamicRadius tipX tipY (checkpointsHitRef s2)\<rparr>
         | Some Square \<Rightarrow>
             s2\<lparr>checkpointsHitRef :=
                  checkSquareHit centerX centerY dynamicSize tipX tipY (checkpointsHitRef s2)\<rparr>
         | None \<Rightarrow> s2)"

text \<open>Lines 115 to 122: score and reset once enough checkpoints are in the set.\<close>

definition ShapeTracing_finish :: "ShapeTracing_state \<Rightarrow> ShapeTracing_state \<times> score_update list" where
  "ShapeTracing_finish s =
     (if int (card (checkpointsHitRef s)) \<ge> \<lfloor>real CHECKPOINTS * 0.9\<rfloor> then
        (s\<lparr>shapeTypeRef := None,
           checkpointsHitRef := {},
           trailPointsRef := [],
           drawingStartedRef := False\<rparr>, [Increment])
      else (s, []))"

definition ShapeTracing_detectFunction ::
  "ShapeTracing_state \<Rightarrow> frame \<Rightarrow> error + ShapeTracing_state \<times> score_update list" where
  "ShapeTracing_detectFunction s f =
     (let now = frame_now f;
          width = real (canvas_width f);
          height = real (canvas_height f);
          shortSide = min width height;
          dynamicRadius = shortSide * 0.3;
          dynamicSize = shortSide * 0.6;
          centerX = width / 2;
          centerY = height / 2;
          s1 = ShapeTracing_chooseShape s f
      in case firstHand f of
           None \<Rightarrow> Inr (ShapeTracing_finish s1)
         | Some landmarks \<Rightarrow>
             (case item landmarks 8 of
                None \<Rightarrow> Inl TypeError
              | Some tip \<Rightarrow>
                  Inr (ShapeTracing_finish
                         (ShapeTracing_followTip s1 now centerX centerY dynamicRadius dynamicSize
                            (lx tip * width) (ly tip * height)))))"

text \<open>A session of ShapeTracing: the frames in order, the score updates collected.
  A \<^verbatim>\<open>TypeError\<close> rejects the promise of \<^verbatim>\<open>GameWrapper\<close>'s loop, which then
  requests no further frame.\<close>

fun ShapeTracing_run ::
  "ShapeTracing_state \<Rightarrow> frame list \<Rightarrow> error + ShapeTracing_state \<times> score_update list" where
  "ShapeTracing_run s [] = Inr (s, [])"
| "ShapeTracing_run s (f # fs) =
     (case ShapeTracing_detectFunction s f of
        Inl e \<Rightarrow> Inl e
      | Inr (s1, us) \<Rightarrow>
          (case ShapeTracing_run s1 fs of
             Inl e \<Rightarrow> Inl e
           | Inr (s2, us') \<Rightarrow> Inr (s2, us @ us')))"

text \<open>The refs as \<^verbatim>\<open>useRef\<close> initialises them.\<close>

definition ShapeTracing_initial :: ShapeTracing_state where
  "ShapeTracing_initial =
     \<lparr>shapeTypeRef = None, checkpointsHitRef = {}, trailPointsRef = [], drawingStartedRef = False\<rparr>"

section \<open>Gesture labels\<close>

text \<open>The strings \<^verbatim>\<open>"open"\<close>, \<^verbatim>\<open>"two"\<close>, \<^verbatim>\<open>"rock"\<close>, \<^verbatim>\<open>"thumbs_up"\<close> and
  \<^verbatim>\<open>"fist"\<close> of the array \<^verbatim>\<open>GESTURES\<close>, which MemoryMatch and SimonSays both
  declare. A target that is \<^verbatim>\<open>undefined\<close> or \<^verbatim>\<open>null\<close> is \<open>None\<close>.\<close>

datatype gesture = Open | Two | Rock | ThumbsUp | Fist

definition GESTURES :: "gesture list" where
  "GESTURES = [Open, Two, Rock, ThumbsUp, Fist]"

definition randomGesture :: "real \<Rightarrow> gesture option" where
  "randomGesture r = item GESTURES \<lfloor>r * real (length GESTURES)\<rfloor>"

section \<open>MemoryMatch\<close>

definition MemoryMatch_ROUND_TIME :: int where
  "MemoryMatch_ROUND_TIME = 8"

record MemoryMatch_state =
  currentSequenceRef :: "gesture option list"
  currentStepRef :: nat
  mm_roundTimerRef :: int

text \<open>\<^verbatim>\<open>checkGesture\<close> of MemoryMatch. The five booleans are computed in the order of
  the source before the target is looked at; each \<^verbatim>\<open>&&\<close> stops at its first false
  operand.\<close>

definition MemoryMatch_checkGesture :: "hand \<Rightarrow> gesture option \<Rightarrow> error + bool" where
  "MemoryMatch_checkGesture landmarks gesture =
     (let palmBase = item landmarks 0;
          indexTip = item landmarks 8;
          middleTip = item landmarks 12;
          ringTip = item landmarks 16;
          pinkyTip = item landmarks 20;
          thumbTip = item landmarks 4;
          thumbIp = item landmarks 3
      in bindE (getY palmBase) (\<lambda>handCenterY.
         let isFingerUp = (\<lambda>tip. bindE (getY tip) (\<lambda>y. Inr (y < handCenterY - 0.05)));
             isFingerDown = (\<lambda>tip. bindE (getY tip) (\<lambda>y. Inr (y > handCenterY + 0.05)))
         in
         bindE (andE (isFingerUp indexTip) (andE (isFingerUp middleTip)
               (andE (isFingerUp ringTip) (andE (isFingerUp pinkyTip)
               (bindE (getX thumbTip) (\<lambda>tx. bindE (getX palmBase) (\<lambda>px. Inr (tx < px))))))))
           (\<lambda>isOpen.
         bindE (andE (isFingerUp indexTip) (andE (isFingerUp middleTip)
               (andE (isFingerDown ringTip) (isFingerDown pinkyTip))))
           (\<lambda>isTwo.
         bindE (andE (isFingerUp indexTip) (andE (isFingerDown middleTip)
               (andE (isFingerDown ringTip) (isFingerUp pinkyTip))))
           (\<lambda>isRock.
         bindE (andE (bindE (getY thumbTip) (\<lambda>ty. bindE (getY thumbIp) (\<lambda>iy. Inr (\<bar>ty - iy\<bar> > 0.04))))
               (andE (isFingerDown indexTip) (andE (isFingerDown middleTip)
               (andE (isFingerDown ringTip) (isFingerDown pinkyTip)))))
           (\<lambda>isThumbsUp.
         bindE (andE (isFingerDown indexTip) (andE (isFingerDown middleTip)
               (andE (isFingerDown ringTip) (andE (isFingerDown pinkyTip)
               (bindE (getY thumbTip) (\<lambda>ty. bindE (getY palmBase) (\<lambda>py. Inr (\<bar>ty - py\<bar> < 0.1))))))))
           (\<lambda>isFist.
         Inr (case gesture of
                Some Open \<Rightarrow> isOpen
              | Some Two \<Rightarrow> isTwo
              | Some Rock \<Rightarrow> isRock
              | Some ThumbsUp \<Rightarrow> isThumbsUp
              | Some Fist \<Rightarrow> isFist
              | None \<Rightarrow> False))))))))"

text \<open>Block 1 of \<^verbatim>\<open>detectFunction\<close> (lines 288 to 294 of the file that holds
  ShapeTracing and MemoryMatch): a new two-gesture sequence when there is none or the round
  time is over.\<close>

definition MemoryMatch_startRound :: "MemoryMatch_state \<Rightarrow> frame \<Rightarrow> MemoryMatch_state" where
  "MemoryMatch_startRound s f =
     (let now = frame_now f
      in if length (currentSequenceRef s) = 0 \<or>
            now - mm_roundTimerRef s > MemoryMatch_ROUND_TIME * 1000
         then s\<lparr>currentSequenceRef :=
                  [randomGesture (math_random f 0), randomGesture (math_random f 1)],
                currentStepRef := 0,
                mm_roundTimerRef := now\<rparr>
         else s)"

definition MemoryMatch_detectFunction ::
  "MemoryMatch_state \<Rightarrow> frame \<Rightarrow> error + MemoryMatch_state \<times> score_update list" where
  "MemoryMatch_detectFunction s f =
     (let s1 = MemoryMatch_startRound s f
      in case firstHand f of
           None \<Rightarrow> Inr (s1, [])
         | Some landmarks \<Rightarrow>
             (let currentTarget =
                    (case item (currentSequenceRef s1) (int (currentStepRef s1)) of
                       None \<Rightarrow> None
                     | Some g \<Rightarrow> g)
              in bindE (MemoryMatch_checkGesture landmarks currentTarget) (\<lambda>matched.
                 if matched then
                   (let s2 = s1\<lparr>currentStepRef := currentStepRef s1 + 1\<rparr>
                    in if currentStepRef s2 \<ge> length (currentSequenceRef s2)
                       then Inr (s2\<lparr>currentSequenceRef := [], currentStepRef := 0\<rparr>, [Increment])
                       else Inr (s2, []))
                 else Inr (s1, []))))"

text \<open>The refs as \<^verbatim>\<open>useRef\<close> initialises them; \<open>t\<close> is the \<^verbatim>\<open>Date.now()\<close> of
  the first render.\<close>

definition MemoryMatch_initial :: "int \<Rightarrow> MemoryMatch_state" where
  "MemoryMatch_initial t = \<lparr>currentSequenceRef = [], currentStepRef = 0, mm_roundTimerRef = t\<rparr>"

section \<open>SimonSays\<close>

definition SimonSays_ROUND_TIME :: int where
  "SimonSays_ROUND_TIME = 5"

definition palmIndices :: "int list" where
  "palmIndices = [0, 1, 5, 9, 13, 17]"

record SimonSays_state =
  gestureRef :: "gesture option"
  timerRef :: int

text \<open>The \<^verbatim>\<open>reduce\<close> over \<^verbatim>\<open>palmIndices\<close>: the sums of the palm points' coordinates.\<close>

definition palmSum :: "hand \<Rightarrow> error + real \<times> real" where
  "palmSum landmarks =
     fold (\<lambda>i acc. bindE acc (\<lambda>(ax, ay).
             bindE (getX (item landmarks i)) (\<lambda>x.
             bindE (getY (item landmarks i)) (\<lambda>y. Inr (ax + x, ay + y)))))
          palmIndices (Inr (0, 0))"

definition SimonSays_checkGesture :: "hand \<Rightarrow> gesture option \<Rightarrow> error + bool" where
  "SimonSays_checkGesture landmarks gesture =
     bindE (palmSum landmarks) (\<lambda>(sx, sy).
       let palmX = sx / real (length palmIndices);
           palmY = sy / real (length palmIndices)
       in bindE (getY (item landmarks 9)) (\<lambda>mcpY.
       let driveDist = \<bar>mcpY - palmY\<bar>;
           upThresh = palmY - driveDist * 0.5;
           downThresh = palmY + driveDist * 0.3;
           isUp = (\<lambda>pt. bindE (getY pt) (\<lambda>y. Inr (y < upThresh)));
           isDown = (\<lambda>pt. bindE (getY pt) (\<lambda>y. Inr (y > downThresh)));
           thumbTip = item landmarks 4;
           indexTip = item landmarks 8;
           middleTip = item landmarks 12;
           ringTip = item landmarks 16;
           pinkyTip = item landmarks 20
       in
       bindE (andE (isUp indexTip) (andE (isUp middleTip) (andE (isUp ringTip) (andE (isUp pinkyTip)
             (bindE (getX thumbTip) (\<lambda>tx. Inr (\<bar>tx - palmX\<bar> > driveDist * 0.3)))))))
         (\<lambda>rule_open.
       bindE (andE (isUp indexTip) (andE (isUp middleTip) (andE (isDown ringTip) (isDown pinkyTip))))
         (\<lambda>rule_two.
       bindE (andE (isUp indexTip) (andE (isDown middleTip) (andE (isDown ringTip) (isUp pinkyTip))))
         (\<lambda>rule_rock.
       bindE (andE (isUp thumbTip) (andE (isDown indexTip) (andE (isDown middleTip)
             (andE (isDown ringTip) (isDown pinkyTip)))))
         (\<lambda>rule_thumbs_up.
       bindE (andE (isDown indexTip) (andE (isDown middleTip) (andE (isDown ringTip)
             (andE (isDown pinkyTip) (isDown thumbTip)))))
         (\<lambda>rule_fist.
       Inr (case gesture of
              Some Open \<Rightarrow> rule_open
            | Some Two \<Rightarrow> rule_two
            | Some Rock \<Rightarrow> rule_rock
            | Some ThumbsUp \<Rightarrow> rule_thumbs_up
            | Some Fist \<Rightarrow> rule_fist
            | None \<Rightarrow> False))))))))"

text \<open>Lines 97 to 100 of \<^verbatim>\<open>SimonSays.jsx\<close>: a new prompt when there is none or the
  round time is over.\<close>

definition SimonSays_startRound :: "SimonSays_state \<Rightarrow> frame \<Rightarrow> SimonSays_state" where
  "SimonSays_startRound s f =
     (let now = frame_now f
      in if gestureRef s = None \<or> now - timerRef s > SimonSays_ROUND_TIME * 1000
         then s\<lparr>gestureRef := item GESTURES \<lfloor>math_random f 0 * real (length GESTURES)\<rfloor>,
                timerRef := now\<rparr>
         else s)"

definition SimonSays_detectFunction ::
  "SimonSays_state \<Rightarrow> frame \<Rightarrow> error + SimonSays_state \<times> score_update list" where
  "SimonSays_detectFunction s f =
     (let now = frame_now f;
          s1 = SimonSays_startRound s f;
          timeLeft = max 0 (real_of_int SimonSays_ROUND_TIME - real_of_int (now - timerRef s1) / 1000)
      in case firstHand f of
           None \<Rightarrow> Inr (s1, [])
         | Some lm \<Rightarrow>
             bindE (andE (Inr (timeLeft > 0)) (SimonSays_checkGesture lm (gestureRef s1))) (\<lambda>matched.
               if matched
               then Inr (s1\<lparr>gestureRef := None, timerRef := now\<rparr>, [Increment])
               else Inr (s1, [])))"

definition SimonSays_initial :: "int \<Rightarrow> SimonSays_state" where
  "SimonSays_initial t = \<lparr>gestureRef = None, timerRef = t\<rparr>"

section \<open>SwipeChallenge\<close>

definition SwipeChallenge_ROUND_TIME :: int where
  "SwipeChallenge_ROUND_TIME = 5"

datatype direction = Left | Right | Up | Down

definition DIRECTIONS :: "direction list" where
  "DIRECTIONS = [Left, Right, Up, Down]"

record SwipeChallenge_state =
  currentDirectionRef :: "direction option"
  swipeStartRef :: "(real \<times> real \<times> int) option"
  sw_roundTimerRef :: int

definition randomDirection :: "real \<Rightarrow> direction option" where
  "randomDirection r = item DIRECTIONS \<lfloor>r * real (length DIRECTIONS)\<rfloor>"

definition getSwipeDirection :: "real \<Rightarrow> real \<Rightarrow> direction" where
  "getSwipeDirection deltaX deltaY =
     (if \<bar>deltaX\<bar> > \<bar>deltaY\<bar>
      then (if deltaX > 0 then Right else Left)
      else (if deltaY > 0 then Down else Up))"

text \<open>Block 1 of \<^verbatim>\<open>detectFunction\<close> (lines 35 to 39 of \<^verbatim>\<open>SwipeChallenge.jsx\<close>).\<close>

definition SwipeChallenge_startRound :: "SwipeChallenge_state \<Rightarrow> frame \<Rightarrow> SwipeChallenge_state" where
  "SwipeChallenge_startRound s f =
     (let now = frame_now f
      in if currentDirectionRef s = None \<or>
            now - sw_roundTimerRef s > SwipeChallenge_ROUND_TIME * 1000
         then s\<lparr>currentDirectionRef := randomDirection (math_random f 0),
                sw_roundTimerRef := now,
                swipeStartRef := None\<rparr>
         else s)"

definition SwipeChallenge_detectFunction ::
  "SwipeChallenge_state \<Rightarrow> frame \<Rightarrow> error + SwipeChallenge_state \<times> score_update list" where
  "SwipeChallenge_detectFunction s f =
     (let now = frame_now f;
          width = real (canvas_width f);
          height = real (canvas_height f);
          s1 = SwipeChallenge_startRound s f
      in case firstHand f of
           None \<Rightarrow> Inr (s1, [])
         | Some landmarks \<Rightarrow>
             (case item landmarks 8 of
                None \<Rightarrow> Inl TypeError
              | Some tip \<Rightarrow>
                  (let tipX = lx tip * width;
                       tipY = ly tip * height
                   in case swipeStartRef s1 of
                        None \<Rightarrow> Inr (s1\<lparr>swipeStartRef := Some (tipX, tipY, now)\<rparr>, [])
                      | Some (startX, startY, startTime) \<Rightarrow>
                          (let deltaX = tipX - startX;
                               deltaY = tipY - startY;
                               distance = hypot deltaX deltaY
                           in if distance > 80 then
                                (let detectedDirection = getSwipeDirection deltaX deltaY
                                 in Inr (s1\<lparr>currentDirectionRef := None,
                                            swipeStartRef := None,
                                            sw_roundTimerRef := now\<rparr>,
                                         if Some detectedDirection = currentDirectionRef s1
                                         then [Increment] else []))
                              else Inr (s1, [])))))"

definition SwipeChallenge_initial :: "int \<Rightarrow> SwipeChallenge_state" where
  "SwipeChallenge_initial t =
     \<lparr>currentDirectionRef = None, swipeStartRef = None, sw_roundTimerRef = t\<rparr>"

section \<open>QuickReaction\<close>

definition SPAWN_INTERVAL :: int where
  "SPAWN_INTERVAL = 2000"

definition TARGET_RADIUS :: real where
  "TARGET_RADIUS = 30"

text \<open>The target is \<^verbatim>\<open>{x, y, spawnTime}\<close>; \<open>reactionTime\<close> is the React state shown
  on the canvas.\<close>

record QuickReaction_state =
  targetRef :: "(real \<times> real \<times> int) option"
  lastSpawnRef :: int
  reactionTime :: "int option"

text \<open>Block 1 of \<^verbatim>\<open>detectFunction\<close>: spawn a target when there is none or the spawn
  interval is over.\<close>

definition QuickReaction_spawn :: "QuickReaction_state \<Rightarrow> frame \<Rightarrow> QuickReaction_state" where
  "QuickReaction_spawn s f =
     (let now = frame_now f;
          width = real (canvas_width f);
          height = real (canvas_height f)
      in if targetRef s = None \<or> now - lastSpawnRef s > SPAWN_INTERVAL
         then s\<lparr>targetRef :=
                  Some (math_random f 0 * (width - 2 * TARGET_RADIUS) + TARGET_RADIUS,
                        math_random f 1 * (height - 2 * TARGET_RADIUS) + TARGET_RADIUS,
                        now),
                lastSpawnRef := now\<rparr>
         else s)"

definition QuickReaction_detectFunction ::
  "QuickReaction_state \<Rightarrow> frame \<Rightarrow> error + QuickReaction_state \<times> score_update list" where
  "QuickReaction_detectFunction s f =
     (let now = frame_now f;
          width = real (canvas_width f);
          height = real (canvas_height f);
          s1 = QuickReaction_spawn s f
      in case firstHand f of
           None \<Rightarrow> Inr (s1, [])
         | Some landmarks \<Rightarrow>
             (case item landmarks 8 of
                None \<Rightarrow> Inl TypeError
              | Some tip \<Rightarrow>
                  (case targetRef s1 of
                     None \<Rightarrow> Inl TypeError
                   | Some (targetX, targetY, spawnTime) \<Rightarrow>
                       (let tipX = lx tip * width;
                            tipY = ly tip * height;
                            dx = tipX - targetX;
                            dy = tipY - targetY;
                            dist = hypot dx dy
                        in if dist < TARGET_RADIUS then
                             Inr (s1\<lparr>reactionTime := Some (now - spawnTime),
                                     targetRef := None,
                                     lastSpawnRef := now\<rparr>, [Increment])
                           else Inr (s1, [])))))"

definition QuickReaction_initial :: "int \<Rightarrow> QuickReaction_state" where
  "QuickReaction_initial t = \<lparr>targetRef = None, lastSpawnRef = t, reactionTime = None\<rparr>"

section \<open>BallGame\<close>

definition BALL_COUNT :: nat where
  "BALL_COUNT = 4"

definition FLASH_TIME :: int where
  "FLASH_TIME = 800"

definition WAIT_TIME :: int where
  "WAIT_TIME = 300"

definition BALL_RADIUS :: real where
  "BALL_RADIUS = 30"

definition FEEDBACK_TIME :: int where
  "FEEDBACK_TIME = 500"

datatype phase = Init | Show | Input

datatype feedback = Correct | Wrong

text \<open>
  The refs of \<^verbatim>\<open>BallGame\<close>, and the callbacks handed to \<^verbatim>\<open>setTimeout\<close> that have
  not run yet: \<open>pendingTimeouts\<close> holds the time each one is due, oldest first.
\<close>

record BallGame_state =
  ballsRef :: "(real \<times> real) list"
  sequenceRef :: "int list"
  gameStateRef :: phase
  flashIndexRef :: nat
  lastTimeRef :: int
  inputIndexRef :: nat
  tappedIdxRef :: "nat option"
  feedbackRef :: "feedback option"
  pendingTimeouts :: "int list"

text \<open>\<^verbatim>\<open>!tappedIdxRef.current\<close>: true of \<^verbatim>\<open>null\<close>, and of the number \<open>0\<close>.\<close>

definition notTapped :: "nat option \<Rightarrow> bool" where
  "notTapped t = (case t of None \<Rightarrow> True | Some i \<Rightarrow> i = 0)"

text \<open>The body of the \<^verbatim>\<open>forEach\<close> over the balls in the input phase (lines 112 to 140),
  on the state and the local \<^verbatim>\<open>touching\<close>.\<close>

definition BallGame_touchBall ::
  "int \<Rightarrow> real \<Rightarrow> real \<Rightarrow> nat \<times> (real \<times> real) \<Rightarrow> BallGame_state \<times> bool \<Rightarrow> BallGame_state \<times> bool" where
  "BallGame_touchBall now tipX tipY entry acc =
     (let idx = fst entry; ball = snd entry; s = fst acc; touching = snd acc;
          d = hypot (fst ball - tipX) (snd ball - tipY)
      in if d < BALL_RADIUS then
           (if notTapped (tappedIdxRef s) then
              (let correctIdx = item (sequenceRef s) (int (inputIndexRef s));
                   isCorrect = (Some (int idx) = correctIdx)
               in (s\<lparr>tappedIdxRef := Some idx,
                      feedbackRef := Some (if isCorrect then Correct else Wrong),
                      pendingTimeouts := pendingTimeouts s @ [now + FEEDBACK_TIME]\<rparr>, True))
            else (s, True))
         else (s, touching))"

text \<open>The callback of \<^verbatim>\<open>setTimeout\<close> (lines 122 to 137); \<open>now'\<close> is its
  \<^verbatim>\<open>Date.now()\<close> and \<open>r\<close> its \<^verbatim>\<open>Math.random()\<close>.\<close>

definition BallGame_feedbackTimeout ::
  "BallGame_state \<Rightarrow> int \<Rightarrow> real \<Rightarrow> BallGame_state \<times> score_update list" where
  "BallGame_feedbackTimeout s now' r =
     (let res =
            (if feedbackRef s = Some Wrong then (s\<lparr>gameStateRef := Init\<rparr>, [])
             else
               (let s1 = s\<lparr>inputIndexRef := inputIndexRef s + 1\<rparr>
                in if inputIndexRef s1 = length (sequenceRef s1) then
                     (s1\<lparr>sequenceRef := sequenceRef s1 @ [\<lfloor>r * real BALL_COUNT\<rfloor>],
                         flashIndexRef := 0,
                         lastTimeRef := now',
                         gameStateRef := Show\<rparr>, [Increment])
                   else (s1, [])))
      in ((fst res)\<lparr>feedbackRef := None, tappedIdxRef := None\<rparr>, snd res))"

text \<open>The browser runs the oldest pending callback.\<close>

definition BallGame_fireTimeout ::
  "BallGame_state \<Rightarrow> int \<Rightarrow> real \<Rightarrow> BallGame_state \<times> score_update list" where
  "BallGame_fireTimeout s now' r =
     (case pendingTimeouts s of
        [] \<Rightarrow> (s, [])
      | due # rest \<Rightarrow> BallGame_feedbackTimeout (s\<lparr>pendingTimeouts := rest\<rparr>) now' r)"

text \<open>Block 1 of \<^verbatim>\<open>detectFunction\<close> (lines 35 to 48).\<close>

definition BallGame_init :: "BallGame_state \<Rightarrow> frame \<Rightarrow> BallGame_state \<times> score_update list" where
  "BallGame_init s f =
     (let now = frame_now f;
          w = real (canvas_width f);
          h = real (canvas_height f)
      in if gameStateRef s = Init then
           (s\<lparr>ballsRef :=
                 map (\<lambda>k. (math_random f (2 * k) * (w - BALL_RADIUS * 2) + BALL_RADIUS,
                           math_random f (2 * k + 1) * (h - BALL_RADIUS * 2) + BALL_RADIUS))
                     [0..<BALL_COUNT],
               sequenceRef := [\<lfloor>math_random f (2 * BALL_COUNT) * real BALL_COUNT\<rfloor>],
               flashIndexRef := 0,
               lastTimeRef := now,
               inputIndexRef := 0,
               feedbackRef := None,
               tappedIdxRef := None,
               gameStateRef := Show\<rparr>, [SetTo 0])
         else (s, []))"

text \<open>Block 2 (lines 51 to 62).\<close>

definition BallGame_show :: "BallGame_state \<Rightarrow> frame \<Rightarrow> BallGame_state" where
  "BallGame_show s f =
     (let now = frame_now f
      in if gameStateRef s = Show then
           (let elapsed = now - lastTimeRef s
            in if elapsed > FLASH_TIME + WAIT_TIME then
                 (let s1 = s\<lparr>lastTimeRef := now, flashIndexRef := flashIndexRef s + 1\<rparr>
                  in if flashIndexRef s1 \<ge> length (sequenceRef s1)
                     then s1\<lparr>gameStateRef := Input, inputIndexRef := 0, tappedIdxRef := None\<rparr>
                     else s1)
               else s)
         else s)"

text \<open>Block 4 (lines 103 to 146).\<close>

definition BallGame_input :: "BallGame_state \<Rightarrow> frame \<Rightarrow> error + BallGame_state" where
  "BallGame_input s f =
     (let now = frame_now f;
          w = real (canvas_width f);
          h = real (canvas_height f)
      in if gameStateRef s = Input then
           (case firstHand f of
              None \<Rightarrow> Inr s
            | Some landmarks \<Rightarrow>
                (case item landmarks 8 of
                   None \<Rightarrow> Inl TypeError
                 | Some tip \<Rightarrow>
                     (let tipX = lx tip * w;
                          tipY = ly tip * h;
                          res = fold (BallGame_touchBall now tipX tipY)
                                     (enumerate 0 (ballsRef s)) (s, False);
                          s1 = fst res;
                          touching = snd res
                      in if \<not> touching \<and> feedbackRef s1 = None
                         then Inr (s1\<lparr>tappedIdxRef := None\<rparr>)
                         else Inr s1)))
         else Inr s)"

definition BallGame_detectFunction ::
  "BallGame_state \<Rightarrow> frame \<Rightarrow> error + BallGame_state \<times> score_update list" where
  "BallGame_detectFunction s f =
     (let r1 = BallGame_init s f;
          s2 = BallGame_show (fst r1) f
      in bindE (BallGame_input s2 f) (\<lambda>s3. Inr (s3, snd r1)))"

text \<open>The refs as \<^verbatim>\<open>useRef\<close> initialises them.\<close>

definition BallGame_initial :: BallGame_state where
  "BallGame_initial =
     \<lparr>ballsRef = [], sequenceRef = [], gameStateRef = Init, flashIndexRef = 0, lastTimeRef = 0,
      inputIndexRef = 0, tappedIdxRef = None, feedbackRef = None, pendingTimeouts = []\<rparr>"

section \<open>Example inputs\<close>

text \<open>A hand whose 21 landmarks all lie at \<open>(x, y)\<close>: for the games that read the index
  fingertip (landmark 8) only.\<close>

definition pointer_hand :: "real \<Rightarrow> real \<Rightarrow> hand" where
  "pointer_hand x y = replicate 21 \<lparr>lx = x, ly = y\<rparr>"

text \<open>A frame on a canvas of 1000 by 1000 pixels at time \<open>t\<close>, with the detector's
  result \<open>res\<close> and every \<^verbatim>\<open>Math.random()\<close> returning \<open>r\<close>.\<close>

definition example_frame :: "int \<Rightarrow> hand list option \<Rightarrow> real \<Rightarrow> frame" where
  "example_frame t res r =
     \<lparr>frame_now = t, canvas_width = 1000, canvas_height = 1000,
      detect_results = res, math_random = (\<lambda>_. r)\<rparr>"

text \<open>A square that has just been chosen.\<close>

definition square0 :: ShapeTracing_state where
  "square0 =
     \<lparr>shapeTypeRef = Some Square, checkpointsHitRef = {}, trailPointsRef = [],
      drawingStartedRef = False\<rparr>"



text \<open>A frame on a canvas of 320 by 240 pixels at time \<open>t\<close>, with the detector's
  result \<open>res\<close> and every \<^verbatim>\<open>Math.random()\<close> returning \<open>r\<close>.\<close>

definition small_frame :: "int \<Rightarrow> hand list option \<Rightarrow> real \<Rightarrow> frame" where
  "small_frame t res r =
     \<lparr>frame_now = t, canvas_width = 320, canvas_height = 240,
      detect_results = res, math_random = (\<lambda>_. r)\<rparr>"

text \<open>A square being traced on that canvas, its checkpoint 5 at \<open>(124, 48)\<close> hit.\<close>

definition square5 :: ShapeTracing_state where
  "square5 =
     \<lparr>shapeTypeRef = Some Square, checkpointsHitRef = {5}, trailPointsRef = [(124, 48, 16)],
      drawingStartedRef = True\<rparr>"

text \<open>A circle being traced, 13 of its 16 checkpoints hit.\<close>

definition circle13 :: ShapeTracing_state where
  "circle13 =
     \<lparr>shapeTypeRef = Some Circle,
      checkpointsHitRef = {0, 1, 2, 3, 5, 6, 7, 8, 9, 10, 11, 12, 13},
      trailPointsRef = [], drawingStartedRef = True\<rparr>"

text \<open>A swipe round with prompt \<^verbatim>\<open>right\<close> whose swipe started at \<open>(100, 500)\<close>.\<close>

definition swipe_right_pending :: SwipeChallenge_state where
  "swipe_right_pending =
     \<lparr>currentDirectionRef = Some Right, swipeStartRef = Some (100, 500, 0), sw_roundTimerRef = 0\<rparr>"

text \<open>A hand of 21 landmarks, landmark \<open>i\<close> at the point \<open>p i\<close>.\<close>

definition hand_of :: "(nat \<Rightarrow> real \<times> real) \<Rightarrow> hand" where
  "hand_of p = map (\<lambda>i. \<lparr>lx = fst (p i), ly = snd (p i)\<rparr>) [0..<21]"

text \<open>An open hand: the four fingertips well above the palm, the thumb tip to the side.\<close>

definition open_hand :: hand where
  "open_hand =
     hand_of (\<lambda>i. (if i = 4 then 3 / 10 else 1 / 2,
                    if i \<in> {8, 12, 16, 20} then 1 / 5
                    else if i = 0 then 4 / 5
                    else if i = 1 then 7 / 10
                    else 3 / 5))"

text \<open>Four fingers folded below the palm base, the thumb tip \<open>0.05\<close> below its
  interphalangeal joint and the palm base.\<close>

definition thumb_fist_hand :: hand where
  "thumb_fist_hand =
     hand_of (\<lambda>i. (1 / 2,
                    if i \<in> {8, 12, 16, 20} then 3 / 5
                    else if i = 4 then 11 / 20
                    else 1 / 2))"

text \<open>Index and middle finger up, ring and little finger folded.\<close>

definition two_hand :: hand where
  "two_hand =
     hand_of (\<lambda>i. (1 / 2,
                    if i \<in> {8, 12} then 1 / 5
                    else if i \<in> {16, 20} then 4 / 5
                    else 1 / 2))"

text \<open>MemoryMatch with the first of two gestures done.\<close>

definition memory_second_step :: MemoryMatch_state where
  "memory_second_step =
     \<lparr>currentSequenceRef = [Some Open, Some Two], currentStepRef = 1, mm_roundTimerRef = 0\<rparr>"

text \<open>BallGame in its input phase: four balls in a row, the sequence is ball 0.\<close>

definition balls_input :: BallGame_state where
  "balls_input =
     \<lparr>ballsRef = [(100, 100), (300, 100), (500, 100), (700, 100)],
      sequenceRef = [0], gameStateRef = Input, flashIndexRef = 1, lastTimeRef = 1101,
      inputIndexRef = 0, tappedIdxRef = None, feedbackRef = None, pendingTimeouts = []\<rparr>"

text \<open>The states while the fingertip rests on ball 0: after one frame, after two.\<close>

definition balls_touch0_once :: BallGame_state where
  "balls_touch0_once =
     balls_input\<lparr>tappedIdxRef := Some 0, feedbackRef := Some Correct, pendingTimeouts := [2500]\<rparr>"

text \<open>After the second frame on ball 0.\<close>

definition balls_touch0_twice :: BallGame_state where
  "balls_touch0_twice =
     balls_input\<lparr>tappedIdxRef := Some 0, feedbackRef := Some Correct,
                 pendingTimeouts := [2500, 2516]\<rparr>"

text \<open>The state while the fingertip rests on ball 1, the wrong ball.\<close>

definition balls_touch1 :: BallGame_state where
  "balls_touch1 =
     balls_input\<lparr>tappedIdxRef := Some 1, feedbackRef := Some Wrong, pendingTimeouts := [2500]\<rparr>"

text \<open>BallGame after the feedback of a wrong tap has run out.\<close>

definition balls_failed :: BallGame_state where
  "balls_failed = balls_input\<lparr>gameStateRef := Init\<rparr>"

section \<open>Auxiliary lemmas\<close>

subsection \<open>Geometry\<close>

lemma hypot_less_iff: "0 \<le> t \<Longrightarrow> hypot a b < t \<longleftrightarrow> a * a + b * b < t * t"
  unfolding hypot_def
  by (metis abs_of_nonneg real_sqrt_abs2 real_sqrt_less_iff)

lemma hypot_greater_iff: "0 \<le> t \<Longrightarrow> t < hypot a b \<longleftrightarrow> t * t < a * a + b * b"
  unfolding hypot_def
  by (metis abs_of_nonneg real_sqrt_abs2 real_sqrt_less_iff)

lemma hypot_cmod: "hypot a b = cmod (Complex a b)"
  by (simp add: hypot_def cmod_def power2_eq_square)


lemma abs_snd_le_hypot: "\<bar>b\<bar> \<le> hypot a b"
  unfolding hypot_cmod using abs_Im_le_cmod [of "Complex a b"] by simp


subsection \<open>Doubles\<close>

lemma roundHalfEven_of_int [simp]: "roundHalfEven (of_int z) = z"
  by (simp add: roundHalfEven_def)

lemma fl_0 [simp]: "fl 0 = 0"
  by (simp add: fl_def)


lemma fl_of_int:
  assumes "\<bar>m\<bar> < 2 ^ 53"
  shows "fl (of_int m) = of_int m"
proof (cases "m = 0")
  case True then show ?thesis by simp
next
  case False
  define e where "e = \<lfloor>log 2 \<bar>real_of_int m\<bar>\<rfloor>"
  have pos: "1 \<le> \<bar>real_of_int m\<bar>" using False by (simp flip: of_int_abs)
  have "\<bar>real_of_int m\<bar> < 2 ^ 53" using assms by (simp flip: of_int_abs)
  then have "log 2 \<bar>real_of_int m\<bar> < 53"
    using pos by (simp add: log_less_iff)
  then have e52: "e \<le> 52" unfolding e_def by linarith
  have "0 \<le> log 2 \<bar>real_of_int m\<bar>" using pos by simp
  then have e0: "0 \<le> e" unfolding e_def by simp
  obtain k where k: "k = nat (52 - e)" by simp
  have u: "2 powr (real_of_int e - 52) = 1 / 2 ^ k"
  proof -
    have "real_of_int e - 52 = - real k" using e52 k by simp
    then have "2 powr (real_of_int e - 52) = 2 powr (- real k)" by (rule arg_cong)
    then show ?thesis by (simp add: powr_minus powr_realpow field_simps)
  qed
  have r: "roundHalfEven (real_of_int m / (1 / 2 ^ k)) = m * 2 ^ k"
  proof -
    have "real_of_int m / (1 / 2 ^ k) = of_int (m * 2 ^ k)" by simp
    then show ?thesis by (simp only: roundHalfEven_of_int)
  qed
  have mx: "max e (- 1022) = e" using e0 by simp
  have "fl (of_int m) =
      of_int (roundHalfEven (real_of_int m / 2 powr (real_of_int (max e (- 1022)) - 52)))
        * 2 powr (real_of_int (max e (- 1022)) - 52)"
    using False by (simp add: fl_def Let_def e_def)
  also have "\<dots> = of_int (m * 2 ^ k) * (1 / 2 ^ k)"
    unfolding mx u r ..
  also have "\<dots> = of_int m" by simp
  finally show ?thesis .
qed

lemma fl_numeral: "numeral n < (2::int) ^ 53 \<Longrightarrow> fl (numeral n) = numeral n"
  using fl_of_int [of "numeral n"] by simp


subsection \<open>Example frames\<close>

lemma firstHand_example: "firstHand (example_frame t (Some (h # hs)) r) = Some h"
  by (simp add: firstHand_def example_frame_def)

lemma firstHand_example_None: "firstHand (example_frame t None r) = None"
  by (simp add: firstHand_def example_frame_def)

lemma item_pointer_hand: "item (pointer_hand x y) 8 = Some \<lparr>lx = x, ly = y\<rparr>"
  by (simp add: item_def pointer_hand_def)

subsection \<open>ShapeTracing\<close>

lemma completion_threshold: "\<lfloor>real CHECKPOINTS * 0.9\<rfloor> = 14"
  by (simp add: CHECKPOINTS_def)

lemma fold_insert_if_subset:
  "fold (\<lambda>e acc. if P e then insert (g e) acc else acc) xs S \<subseteq> S \<union> g ` set xs"
  by (induction xs arbitrary: S) (auto split: if_splits)

lemma fold_insert_if_eq:
  "fold (\<lambda>e acc. if P e then insert (g e) acc else acc) xs S = S \<union> g ` {e \<in> set xs. P e}"
  by (induction xs arbitrary: S) (auto split: if_splits)

lemma fold_insert_self_eq:
  "fold (\<lambda>i acc. if P i then insert i acc else acc) xs S = S \<union> {i \<in> set xs. P i}"
  by (induction xs arbitrary: S) (auto split: if_splits)

lemma checkSquareHit_eq:
  "checkSquareHit cx cy sz tx ty S =
     S \<union> fst ` {e \<in> set (enumerate 0 (sides cx cy sz)). hypot (fst (snd e) - tx) (snd (snd e) - ty) < TOLERANCE}"
proof -
  have h: "(\<lambda>(idx, edge) acc. if hypot (fst edge - tx) (snd edge - ty) < TOLERANCE then insert idx acc else acc)
        = (\<lambda>e acc. if hypot (fst (snd e) - tx) (snd (snd e) - ty) < TOLERANCE then insert (fst e) acc else acc)"
    by (auto simp: fun_eq_iff)
  show ?thesis
    unfolding checkSquareHit_def Let_def h by (rule fold_insert_if_eq)
qed

lemma checkCircleHit_eq:
  "checkCircleHit cx cy r tx ty S =
     S \<union> {i. i < CHECKPOINTS \<and> hypot (fst (circleCheckpoint cx cy r i) - tx) (snd (circleCheckpoint cx cy r i) - ty) < TOLERANCE}"
  unfolding checkCircleHit_def Let_def fold_insert_self_eq by auto

lemma length_sides: "length (sides cx cy sz) = 12"
  by (simp add: sides_def Let_def)

lemma checkSquareHit_subset: "checkSquareHit cx cy sz tx ty S \<subseteq> S \<union> {0..<12}"
proof -
  have "fst ` set (enumerate 0 (sides cx cy sz)) = {0..<12}"
    by (simp add: length_sides flip: set_map)
  then show ?thesis
    unfolding checkSquareHit_eq by auto
qed

lemma ShapeTracing_finish_eq:
  "ShapeTracing_finish s =
     (if 14 \<le> card (checkpointsHitRef s) then
        (s\<lparr>shapeTypeRef := None, checkpointsHitRef := {}, trailPointsRef := [],
           drawingStartedRef := False\<rparr>, [Increment])
      else (s, []))"
  unfolding ShapeTracing_finish_def completion_threshold by simp

lemma finish_below:
  "card (checkpointsHitRef s) < 14 \<Longrightarrow> ShapeTracing_finish s = (s, [])"
  by (simp add: ShapeTracing_finish_eq)

lemma detectFunction_tip:
  assumes "firstHand f = Some landmarks" "item landmarks 8 = Some tip"
  shows "ShapeTracing_detectFunction s f =
     Inr (ShapeTracing_finish (ShapeTracing_followTip (ShapeTracing_chooseShape s f)
             (frame_now f) (real (canvas_width f) / 2) (real (canvas_height f) / 2)
             (min (real (canvas_width f)) (real (canvas_height f)) * 0.3)
             (min (real (canvas_width f)) (real (canvas_height f)) * 0.6)
             (lx tip * real (canvas_width f)) (ly tip * real (canvas_height f))))"
  using assms by (simp add: ShapeTracing_detectFunction_def Let_def)

lemma detectFunction_shape:
  assumes "ShapeTracing_detectFunction s f = Inr (s', us)"
  shows "(s', us) = ShapeTracing_finish (ShapeTracing_chooseShape s f) \<and> firstHand f = None
       \<or> (\<exists>now cx cy r sz tx ty. (s', us) =
             ShapeTracing_finish (ShapeTracing_followTip (ShapeTracing_chooseShape s f) now cx cy r sz tx ty))"
proof (cases "firstHand f")
  case None
  with assms show ?thesis
    by (simp add: ShapeTracing_detectFunction_def Let_def)
next
  case (Some landmarks)
  show ?thesis
  proof (cases "item landmarks 8")
    case None
    with Some assms show ?thesis
      by (simp add: ShapeTracing_detectFunction_def Let_def)
  next
    case (Some tip)
    with \<open>firstHand f = Some landmarks\<close> assms
    have "(s', us) = ShapeTracing_finish (ShapeTracing_followTip (ShapeTracing_chooseShape s f)
             (frame_now f) (real (canvas_width f) / 2) (real (canvas_height f) / 2)
             (min (real (canvas_width f)) (real (canvas_height f)) * 0.3)
             (min (real (canvas_width f)) (real (canvas_height f)) * 0.6)
             (lx tip * real (canvas_width f)) (ly tip * real (canvas_height f)))"
      by (simp add: ShapeTracing_detectFunction_def Let_def)
    then show ?thesis by blast
  qed
qed

lemma card_below_12:
  assumes "S \<subseteq> {0..<12::nat}" shows "card S < 14"
proof -
  have "card S \<le> card {0..<12::nat}" by (rule card_mono) (use assms in auto)
  then show ?thesis by simp
qed

lemma followTip_square:
  assumes "shapeTypeRef s = Some Square" "checkpointsHitRef s \<subseteq> {0..<12}"
  shows "shapeTypeRef (ShapeTracing_followTip s now cx cy r sz tx ty) = Some Square
       \<and> checkpointsHitRef (ShapeTracing_followTip s now cx cy r sz tx ty) \<subseteq> {0..<12}"
  using assms checkSquareHit_subset [of cx cy sz tx ty "checkpointsHitRef s"]
  by (auto simp: ShapeTracing_followTip_def Let_def)

lemma square_step:
  assumes "shapeTypeRef s = Some Square" "checkpointsHitRef s \<subseteq> {0..<12}"
    and "ShapeTracing_detectFunction s f = Inr (s', us)"
  shows "us = [] \<and> shapeTypeRef s' = Some Square \<and> checkpointsHitRef s' \<subseteq> {0..<12}"
proof -
  have c: "ShapeTracing_chooseShape s f = s"
    using assms(1) by (simp add: ShapeTracing_chooseShape_def)
  from detectFunction_shape [OF assms(3)] c obtain t where
    t: "(s', us) = ShapeTracing_finish t" "shapeTypeRef t = Some Square"
       "checkpointsHitRef t \<subseteq> {0..<12}"
    using assms(1,2) followTip_square [OF assms(1,2)] by metis
  from finish_below [OF card_below_12 [OF t(3)]] t show ?thesis by simp
qed

lemma square_run:
  assumes "shapeTypeRef s = Some Square" "checkpointsHitRef s \<subseteq> {0..<12}"
    and "ShapeTracing_run s fs = Inr (s', us)"
  shows "us = [] \<and> shapeTypeRef s' = Some Square \<and> checkpointsHitRef s' \<subseteq> {0..<12}"
  using assms
proof (induction fs arbitrary: s us)
  case Nil
  then show ?case by simp
next
  case (Cons f fs)
  from Cons.prems(3) obtain s1 us1 us2 where
    st: "ShapeTracing_detectFunction s f = Inr (s1, us1)"
    and rn: "ShapeTracing_run s1 fs = Inr (s', us2)" and us: "us = us1 @ us2"
    by (auto split: sum.splits prod.splits)
  from square_step [OF Cons.prems(1,2) st] have a: "us1 = []" "shapeTypeRef s1 = Some Square"
    "checkpointsHitRef s1 \<subseteq> {0..<12}" by simp_all
  from Cons.IH [OF a(2,3) rn] a(1) us show ?case by simp
qed

lemma square_invariant_step:
  assumes "shapeTypeRef s = Some Square \<longrightarrow> checkpointsHitRef s \<subseteq> {0..<12}"
    and "ShapeTracing_detectFunction s f = Inr (s', us)"
  shows "shapeTypeRef s' = Some Square \<longrightarrow> checkpointsHitRef s' \<subseteq> {0..<12}"
proof (cases "shapeTypeRef (ShapeTracing_chooseShape s f) = Some Square")
  case True
  let ?c = "ShapeTracing_chooseShape s f"
  have h: "checkpointsHitRef ?c \<subseteq> {0..<12}"
    using assms(1) True by (auto simp: ShapeTracing_chooseShape_def split: if_splits)
  from detectFunction_shape [OF assms(2)] obtain t where
    t: "(s', us) = ShapeTracing_finish t" "checkpointsHitRef t \<subseteq> {0..<12}"
    using h followTip_square [OF True h] by metis
  from finish_below [OF card_below_12 [OF t(2)]] t show ?thesis by simp
next
  case False
  let ?c = "ShapeTracing_chooseShape s f"
  have "shapeTypeRef (ShapeTracing_followTip ?c now cx cy r sz tx ty) \<noteq> Some Square"
    for now cx cy r sz tx ty
    using False by (auto simp: ShapeTracing_followTip_def Let_def split: option.splits shape.splits)
  with detectFunction_shape [OF assms(2)] False obtain t where
    t: "(s', us) = ShapeTracing_finish t" "shapeTypeRef t \<noteq> Some Square"
    by metis
  then show ?thesis by (auto simp: ShapeTracing_finish_eq split: if_splits)
qed

lemma square_invariant_run:
  assumes "shapeTypeRef s = Some Square \<longrightarrow> checkpointsHitRef s \<subseteq> {0..<12}"
    and "ShapeTracing_run s fs = Inr (s', us)"
  shows "shapeTypeRef s' = Some Square \<longrightarrow> checkpointsHitRef s' \<subseteq> {0..<12}"
  using assms
proof (induction fs arbitrary: s us)
  case Nil
  then show ?case by simp
next
  case (Cons f fs)
  from Cons.prems(2) obtain s1 us1 us2 where
    st: "ShapeTracing_detectFunction s f = Inr (s1, us1)"
    and rn: "ShapeTracing_run s1 fs = Inr (s', us2)"
    by (auto split: sum.splits prod.splits)
  from Cons.IH [OF square_invariant_step [OF Cons.prems(1) st] rn] show ?case .
qed





lemma sides_val: "sides 500 500 600 = [(200,200),(200,350),(200,500),(200,650),(200,200),(350,200),(500,200),(650,200),(800,200),(800,350),(800,500),(800,650)]"
  by (simp add: sides_def CHECKPOINTS_def)

lemma csh: "checkSquareHit 500 500 600 200 200 {} = {0,4}"
  unfolding checkSquareHit_def sides_val by (auto simp: hypot_less_iff TOLERANCE_def)

lemma circleCheckpoint_0: "circleCheckpoint 500 500 300 0 = (800, 500)"
  by (simp add: circleCheckpoint_def)

lemma circleCheckpoint_4: "circleCheckpoint 500 500 300 4 = (500, 800)"
  by (simp add: circleCheckpoint_def CHECKPOINTS_def)

lemma sides_hits_200:
  "i < length (sides 500 500 600) \<Longrightarrow>
   hypot (fst (sides 500 500 600 ! i) - 200) (snd (sides 500 500 600 ! i) - 200) < TOLERANCE \<Longrightarrow>
   i \<in> {0, 4}"
proof -
  assume a: "i < length (sides 500 500 600)"
    and h: "hypot (fst (sides 500 500 600 ! i) - 200) (snd (sides 500 500 600 ! i) - 200) < TOLERANCE"
  from a have "(i, sides 500 500 600 ! i) \<in> set (enumerate 0 (sides 500 500 600))"
    by (simp add: in_set_enumerate_eq)
  with h have "i \<in> checkSquareHit 500 500 600 200 200 {}"
    unfolding checkSquareHit_eq by force
  then show ?thesis by (simp add: csh)
qed

lemma lower_half_far:
  assumes "pi \<le> a" "a < 2 * pi"
  shows "\<not> hypot (500 + 300 * cos a - 500) (500 + 300 * sin a - 800) < TOLERANCE"
proof -
  have "sin a \<le> 0" using assms by (rule sin_le_zero)
  then have "300 \<le> \<bar>500 + 300 * sin a - 800\<bar>" by simp
  with abs_snd_le_hypot [of "500 + 300 * sin a - 800" "500 + 300 * cos a - 500"]
  show ?thesis by (simp add: TOLERANCE_def)
qed

lemma circle13_new_hits:
  "{i. i < CHECKPOINTS \<and> hypot (fst (circleCheckpoint 500 500 300 i) - 500)
        (snd (circleCheckpoint 500 500 300 i) - 800) < TOLERANCE} \<subseteq> insert 4 (checkpointsHitRef circle13)"
proof
  fix i
  assume "i \<in> {i. i < CHECKPOINTS \<and> hypot (fst (circleCheckpoint 500 500 300 i) - 500)
        (snd (circleCheckpoint 500 500 300 i) - 800) < TOLERANCE}"
  then have i: "i < 16" and h: "hypot (fst (circleCheckpoint 500 500 300 i) - 500)
        (snd (circleCheckpoint 500 500 300 i) - 800) < TOLERANCE"
    by (simp_all add: CHECKPOINTS_def)
  have "i \<noteq> 14 \<and> i \<noteq> 15"
  proof (rule ccontr)
    assume "\<not> (i \<noteq> 14 \<and> i \<noteq> 15)"
    then have "pi \<le> real i / real CHECKPOINTS * pi * 2 \<and> real i / real CHECKPOINTS * pi * 2 < 2 * pi"
      by (auto simp: CHECKPOINTS_def)
    with lower_half_far [of "real i / real CHECKPOINTS * pi * 2"] h show False
      by (simp add: circleCheckpoint_def Let_def)
  qed
  with i have "i < 14" by arith
  then have "i \<in> {0, 1, 2, 3, 4, 5, 6, 7, 8, 9, 10, 11, 12, 13}"
    by (simp add: less_Suc_eq eval_nat_numeral)
  then show "i \<in> insert 4 (checkpointsHitRef circle13)"
    unfolding circle13_def by simp blast
qed

lemma circle13_hit_4:
  "checkCircleHit 500 500 300 500 800 (checkpointsHitRef circle13) = insert 4 (checkpointsHitRef circle13)"
proof -
  have "hypot (fst (circleCheckpoint 500 500 300 4) - 500) (snd (circleCheckpoint 500 500 300 4) - 800) < TOLERANCE"
    by (simp add: circleCheckpoint_4 hypot_def TOLERANCE_def)
  then have "4 \<in> {i. i < CHECKPOINTS \<and> hypot (fst (circleCheckpoint 500 500 300 i) - 500)
        (snd (circleCheckpoint 500 500 300 i) - 800) < TOLERANCE}"
    by (simp add: CHECKPOINTS_def)
  with circle13_new_hits show ?thesis
    unfolding checkCircleHit_eq by blast
qed

lemma circle13_followTip:
  "ShapeTracing_followTip circle13 16 500 500 300 600 500 800 =
     circle13\<lparr>checkpointsHitRef := insert 4 (checkpointsHitRef circle13),
              trailPointsRef := [(500, 800, 16)]\<rparr>"
  using circle13_hit_4 by (simp add: ShapeTracing_followTip_def circle13_def)

lemma square0_chosen:
  "ShapeTracing_run ShapeTracing_initial [example_frame 0 None 0.7] = Inr (square0, [])"
  by (simp add: example_frame_def ShapeTracing_initial_def ShapeTracing_detectFunction_def
      ShapeTracing_chooseShape_def firstHand_def ShapeTracing_finish_eq SHAPE_TYPES_def item_def
      square0_def)

lemma square0_corner:
  "ShapeTracing_run square0 [example_frame 16 (Some [pointer_hand 0.2 0.2]) 0.7] =
     Inr (\<lparr>shapeTypeRef = Some Square, checkpointsHitRef = {0, 4},
           trailPointsRef = [(200, 200, 16)], drawingStartedRef = True\<rparr>, [])"
proof -
  have c: "ShapeTracing_chooseShape square0 f = square0" for f
    by (simp add: ShapeTracing_chooseShape_def square0_def)
  have ft: "ShapeTracing_followTip square0 16 500 500 300 600 200 200 =
    \<lparr>shapeTypeRef = Some Square, checkpointsHitRef = {0, 4},
     trailPointsRef = [(200, 200, 16)], drawingStartedRef = True\<rparr>"
    by (simp add: ShapeTracing_followTip_def isOnShape_def csh TOLERANCE_def square0_def fl_numeral)
  have d: "ShapeTracing_detectFunction square0 (example_frame 16 (Some [pointer_hand 0.2 0.2]) 0.7)
     = Inr (ShapeTracing_finish (ShapeTracing_followTip square0 16 500 500 300 600 200 200))"
    unfolding detectFunction_tip [OF firstHand_example item_pointer_hand] c
    by (simp add: example_frame_def)
  show ?thesis
    unfolding ShapeTracing_run.simps d ft ShapeTracing_finish_eq by simp
qed






















lemma sides_small:
  "sides 160 120 144 = [(88,48),(88,84),(88,120),(88,156),(88,48),(124,48),(160,48),(196,48),(232,48),(232,84),(232,120),(232,156)]"
  by (simp add: sides_def CHECKPOINTS_def)

lemma csh_small_first: "checkSquareHit 160 120 144 124 48 {} = {5}"
  unfolding checkSquareHit_def sides_small by (auto simp: hypot_less_iff TOLERANCE_def)

lemma csh_small_second: "checkSquareHit 160 120 144 142 48 {5} = {5, 6}"
  unfolding checkSquareHit_def sides_small by (auto simp: hypot_less_iff TOLERANCE_def)

lemma square0_small_chosen:
  "ShapeTracing_detectFunction ShapeTracing_initial (small_frame 0 None (7 / 10)) = Inr (square0, [])"
  by (simp add: small_frame_def ShapeTracing_initial_def ShapeTracing_detectFunction_def
      ShapeTracing_chooseShape_def firstHand_def ShapeTracing_finish_eq SHAPE_TYPES_def item_def
      square0_def)

lemma firstHand_small: "firstHand (small_frame t (Some (h # hs)) r) = Some h"
  by (simp add: firstHand_def small_frame_def)

lemma square0_small_tick:
  "ShapeTracing_detectFunction square0 (small_frame 16 (Some [pointer_hand (31 / 80) (1 / 5)]) 0)
     = Inr (square5, [])"
proof -
  have c: "ShapeTracing_chooseShape square0 f = square0" for f
    by (simp add: ShapeTracing_chooseShape_def square0_def)
  have ft: "ShapeTracing_followTip square0 16 160 120 72 144 124 48 = square5"
    by (simp add: ShapeTracing_followTip_def isOnShape_def csh_small_first TOLERANCE_def
        square0_def square5_def fl_numeral)
  have d: "ShapeTracing_detectFunction square0 (small_frame 16 (Some [pointer_hand (31 / 80) (1 / 5)]) 0)
     = Inr (ShapeTracing_finish (ShapeTracing_followTip square0 16 160 120 72 144 124 48))"
    unfolding detectFunction_tip [OF firstHand_small item_pointer_hand] c
    by (simp add: small_frame_def)
  show ?thesis
    unfolding d ft ShapeTracing_finish_eq by (simp add: square5_def)
qed

lemma square5_tick:
  "ShapeTracing_detectFunction square5 (small_frame 32 (Some [pointer_hand (71 / 160) (1 / 5)]) 0)
     = Inr (\<lparr>shapeTypeRef = Some Square, checkpointsHitRef = {5, 6},
             trailPointsRef = [(124, 48, 16), (142, 48, 32)], drawingStartedRef = True\<rparr>, [])"
proof -
  have c: "ShapeTracing_chooseShape square5 f = square5" for f
    by (simp add: ShapeTracing_chooseShape_def square5_def)
  have ft: "ShapeTracing_followTip square5 32 160 120 72 144 142 48 =
      \<lparr>shapeTypeRef = Some Square, checkpointsHitRef = {5, 6},
       trailPointsRef = [(124, 48, 16), (142, 48, 32)], drawingStartedRef = True\<rparr>"
    using csh_small_second by (simp add: ShapeTracing_followTip_def square5_def)
  have d: "ShapeTracing_detectFunction square5 (small_frame 32 (Some [pointer_hand (71 / 160) (1 / 5)]) 0)
     = Inr (ShapeTracing_finish (ShapeTracing_followTip square5 32 160 120 72 144 142 48))"
    unfolding detectFunction_tip [OF firstHand_small item_pointer_hand] c
    by (simp add: small_frame_def)
  show ?thesis
    unfolding d ft ShapeTracing_finish_eq by simp
qed

subsection \<open>SwipeChallenge\<close>

lemma SwipeChallenge_no_hand:
  "firstHand f = None \<Longrightarrow>
   SwipeChallenge_detectFunction s f = Inr (SwipeChallenge_startRound s f, [])"
  by (simp add: SwipeChallenge_detectFunction_def Let_def)

lemma SwipeChallenge_startRound_fresh:
  "currentDirectionRef s = None \<Longrightarrow>
   SwipeChallenge_startRound s f =
     s\<lparr>currentDirectionRef := randomDirection (math_random f 0),
       sw_roundTimerRef := frame_now f, swipeStartRef := None\<rparr>"
  by (simp add: SwipeChallenge_startRound_def)

lemma SwipeChallenge_startRound_running:
  "currentDirectionRef s \<noteq> None \<Longrightarrow>
   \<not> frame_now f - sw_roundTimerRef s > SwipeChallenge_ROUND_TIME * 1000 \<Longrightarrow>
   SwipeChallenge_startRound s f = s"
  by (auto simp: SwipeChallenge_startRound_def Let_def)

lemma SwipeChallenge_swipe:
  assumes "firstHand f = Some landmarks" "item landmarks 8 = Some tip"
    and "currentDirectionRef s = Some prompt"
    and "\<not> frame_now f - sw_roundTimerRef s > SwipeChallenge_ROUND_TIME * 1000"
    and "swipeStartRef s = Some (startX, startY, startTime)"
    and "hypot (lx tip * real (canvas_width f) - startX) (ly tip * real (canvas_height f) - startY) > 80"
  shows "SwipeChallenge_detectFunction s f =
     Inr (s\<lparr>currentDirectionRef := None, swipeStartRef := None, sw_roundTimerRef := frame_now f\<rparr>,
          if getSwipeDirection (lx tip * real (canvas_width f) - startX)
               (ly tip * real (canvas_height f) - startY) = prompt
          then [Increment] else [])"
proof -
  have "SwipeChallenge_startRound s f = s"
    using assms(3,4) by (simp add: SwipeChallenge_startRound_running)
  then show ?thesis
    using assms by (simp add: SwipeChallenge_detectFunction_def Let_def)
qed

lemma SwipeChallenge_next_prompt:
  assumes "currentDirectionRef s = None"
    and "SwipeChallenge_detectFunction s f = Inr (s', us)"
  shows "currentDirectionRef s' = randomDirection (math_random f 0) \<and> us = []
       \<and> sw_roundTimerRef s' = frame_now f"
proof -
  let ?s1 = "SwipeChallenge_startRound s f"
  have s1: "swipeStartRef ?s1 = None" "currentDirectionRef ?s1 = randomDirection (math_random f 0)"
    "sw_roundTimerRef ?s1 = frame_now f"
    using assms(1) by (simp_all add: SwipeChallenge_startRound_fresh)
  show ?thesis
  proof (cases "firstHand f")
    case None
    with assms(2) s1 show ?thesis by (simp add: SwipeChallenge_no_hand)
  next
    case (Some landmarks)
    with assms(2) s1 show ?thesis
      by (auto simp: SwipeChallenge_detectFunction_def Let_def split: option.splits)
  qed
qed

lemma randomDirection_bands:
  "0 \<le> r \<Longrightarrow> r < 1 / 4 \<Longrightarrow> randomDirection r = Some Left"
  "1 / 4 \<le> r \<Longrightarrow> r < 1 / 2 \<Longrightarrow> randomDirection r = Some Right"
  "1 / 2 \<le> r \<Longrightarrow> r < 3 / 4 \<Longrightarrow> randomDirection r = Some Up"
  "3 / 4 \<le> r \<Longrightarrow> r < 1 \<Longrightarrow> randomDirection r = Some Down"
proof -
  show "randomDirection r = Some Left" if "0 \<le> r" "r < 1 / 4"
  proof -
    have "\<lfloor>r * 4\<rfloor> = 0" using that by (simp add: floor_eq_iff)
    then show ?thesis by (simp add: randomDirection_def DIRECTIONS_def item_def)
  qed
  show "randomDirection r = Some Right" if "1 / 4 \<le> r" "r < 1 / 2"
  proof -
    have "\<lfloor>r * 4\<rfloor> = 1" using that by (simp add: floor_eq_iff)
    then show ?thesis by (simp add: randomDirection_def DIRECTIONS_def item_def)
  qed
  show "randomDirection r = Some Up" if "1 / 2 \<le> r" "r < 3 / 4"
  proof -
    have "\<lfloor>r * 4\<rfloor> = 2" using that by (simp add: floor_eq_iff)
    then show ?thesis by (simp add: randomDirection_def DIRECTIONS_def item_def)
  qed
  show "randomDirection r = Some Down" if "3 / 4 \<le> r" "r < 1"
  proof -
    have "\<lfloor>r * 4\<rfloor> = 3" using that by (simp add: floor_eq_iff)
    then show ?thesis by (simp add: randomDirection_def DIRECTIONS_def item_def)
  qed
qed

lemma randomDirection_some:
  assumes "0 \<le> r" "r < 1"
  shows "randomDirection r \<in> {Some Left, Some Right, Some Up, Some Down}"
proof -
  consider "r < 1 / 4" | "1 / 4 \<le> r" "r < 1 / 2" | "1 / 2 \<le> r" "r < 3 / 4" | "3 / 4 \<le> r"
    by linarith
  then show ?thesis
    using assms randomDirection_bands [of r] by cases simp_all
qed

lemma SwipeChallenge_next_no_hand:
  assumes "currentDirectionRef s = None" "firstHand f = None"
  shows "SwipeChallenge_detectFunction s f =
     Inr (s\<lparr>currentDirectionRef := randomDirection (math_random f 0),
            sw_roundTimerRef := frame_now f, swipeStartRef := None\<rparr>, [])"
  using assms by (simp add: SwipeChallenge_no_hand SwipeChallenge_startRound_fresh)

lemma SwipeChallenge_next_tip:
  assumes "currentDirectionRef s = None" "firstHand f = Some landmarks" "item landmarks 8 = Some tip"
  shows "SwipeChallenge_detectFunction s f =
     Inr (s\<lparr>currentDirectionRef := randomDirection (math_random f 0),
            sw_roundTimerRef := frame_now f,
            swipeStartRef := Some (lx tip * real (canvas_width f), ly tip * real (canvas_height f),
                                   frame_now f)\<rparr>, [])"
  using assms
  by (simp add: SwipeChallenge_detectFunction_def Let_def SwipeChallenge_startRound_fresh)


lemma randomDirection_in_DIRECTIONS:
  assumes "0 \<le> r" "r < 1"
  shows "\<exists>d. d \<in> set DIRECTIONS \<and> randomDirection r = Some d"
  using randomDirection_some [OF assms] by (auto simp: DIRECTIONS_def)

lemma randomDirection_band:
  assumes "0 \<le> r" "r < 1"
  shows "randomDirection r =
          Some (if r < 1 / 4 then Left else if r < 1 / 2 then Right
                else if r < 3 / 4 then Up else Down)"
  using assms randomDirection_bands [of r] by (auto simp: not_less)

subsection \<open>Gesture rules\<close>

lemma bindE_Inr [simp]: "bindE (Inr v) k = k v"
  by (simp add: bindE_def)

lemma bindE_Inl [simp]: "bindE (Inl e) k = Inl e"
  by (simp add: bindE_def)

lemma bindE_eq_Inr: "bindE m k = Inr v \<longleftrightarrow> (\<exists>x. m = Inr x \<and> k x = Inr v)"
  by (cases m) simp_all

lemma andE_Inr [simp]: "andE (Inr a) b = (if a then b else Inr False)"
  by (simp add: andE_def)

lemma andE_eq_True: "andE a b = Inr True \<longleftrightarrow> a = Inr True \<and> b = Inr True"
  by (auto simp: andE_def split: sum.splits bool.splits)

lemma getY_eq_Inr: "getY p = Inr y \<longleftrightarrow> (\<exists>q. p = Some q \<and> ly q = y)"
  by (cases p) (auto simp: getY_def)

lemma getX_eq_Inr: "getX p = Inr x \<longleftrightarrow> (\<exists>q. p = Some q \<and> lx q = x)"
  by (cases p) (auto simp: getX_def)

lemma MemoryMatch_checkGesture_True:
  assumes "MemoryMatch_checkGesture landmarks (Some g) = Inr True"
  shows "(\<exists>palm index middle ring pinky.
        item landmarks 0 = Some palm \<and> item landmarks 8 = Some index \<and>
        item landmarks 12 = Some middle \<and> item landmarks 16 = Some ring \<and>
        item landmarks 20 = Some pinky \<and>
        (case g of
           Open \<Rightarrow> ly index < ly palm - 0.05 \<and> ly middle < ly palm - 0.05 \<and>
                   ly ring < ly palm - 0.05 \<and> ly pinky < ly palm - 0.05
         | Two \<Rightarrow> ly index < ly palm - 0.05 \<and> ly middle < ly palm - 0.05 \<and>
                  ly ring > ly palm + 0.05 \<and> ly pinky > ly palm + 0.05
         | Rock \<Rightarrow> ly index < ly palm - 0.05 \<and> ly middle > ly palm + 0.05 \<and>
                   ly ring > ly palm + 0.05 \<and> ly pinky < ly palm - 0.05
         | ThumbsUp \<Rightarrow> ly index > ly palm + 0.05 \<and> ly middle > ly palm + 0.05 \<and>
                   ly ring > ly palm + 0.05 \<and> ly pinky > ly palm + 0.05
         | Fist \<Rightarrow> ly index > ly palm + 0.05 \<and> ly middle > ly palm + 0.05 \<and>
                   ly ring > ly palm + 0.05 \<and> ly pinky > ly palm + 0.05))"
proof -
  from assms obtain c isOpen isTwo isRock isThumbsUp isFist where
    c: "getY (item landmarks 0) = Inr c"
    and o: "andE (bindE (getY (item landmarks 8)) (\<lambda>y. Inr (y < c - 0.05)))
             (andE (bindE (getY (item landmarks 12)) (\<lambda>y. Inr (y < c - 0.05)))
             (andE (bindE (getY (item landmarks 16)) (\<lambda>y. Inr (y < c - 0.05)))
             (andE (bindE (getY (item landmarks 20)) (\<lambda>y. Inr (y < c - 0.05)))
               (bindE (getX (item landmarks 4)) (\<lambda>tx. bindE (getX (item landmarks 0)) (\<lambda>px. Inr (tx < px))))))) = Inr isOpen"
    and t: "andE (bindE (getY (item landmarks 8)) (\<lambda>y. Inr (y < c - 0.05)))
             (andE (bindE (getY (item landmarks 12)) (\<lambda>y. Inr (y < c - 0.05)))
             (andE (bindE (getY (item landmarks 16)) (\<lambda>y. Inr (y > c + 0.05)))
               (bindE (getY (item landmarks 20)) (\<lambda>y. Inr (y > c + 0.05))))) = Inr isTwo"
    and r: "andE (bindE (getY (item landmarks 8)) (\<lambda>y. Inr (y < c - 0.05)))
             (andE (bindE (getY (item landmarks 12)) (\<lambda>y. Inr (y > c + 0.05)))
             (andE (bindE (getY (item landmarks 16)) (\<lambda>y. Inr (y > c + 0.05)))
               (bindE (getY (item landmarks 20)) (\<lambda>y. Inr (y < c - 0.05))))) = Inr isRock"
    and u: "andE (bindE (getY (item landmarks 4)) (\<lambda>ty. bindE (getY (item landmarks 3)) (\<lambda>iy. Inr (\<bar>ty - iy\<bar> > 0.04))))
             (andE (bindE (getY (item landmarks 8)) (\<lambda>y. Inr (y > c + 0.05)))
             (andE (bindE (getY (item landmarks 12)) (\<lambda>y. Inr (y > c + 0.05)))
             (andE (bindE (getY (item landmarks 16)) (\<lambda>y. Inr (y > c + 0.05)))
               (bindE (getY (item landmarks 20)) (\<lambda>y. Inr (y > c + 0.05)))))) = Inr isThumbsUp"
    and f: "andE (bindE (getY (item landmarks 8)) (\<lambda>y. Inr (y > c + 0.05)))
             (andE (bindE (getY (item landmarks 12)) (\<lambda>y. Inr (y > c + 0.05)))
             (andE (bindE (getY (item landmarks 16)) (\<lambda>y. Inr (y > c + 0.05)))
             (andE (bindE (getY (item landmarks 20)) (\<lambda>y. Inr (y > c + 0.05)))
               (bindE (getY (item landmarks 4)) (\<lambda>ty. bindE (getY (item landmarks 0)) (\<lambda>py. Inr (\<bar>ty - py\<bar> < 0.1))))))) = Inr isFist"
    and g: "(case g of Open \<Rightarrow> isOpen | Two \<Rightarrow> isTwo | Rock \<Rightarrow> isRock
              | ThumbsUp \<Rightarrow> isThumbsUp | Fist \<Rightarrow> isFist)"
    unfolding MemoryMatch_checkGesture_def Let_def bindE_eq_Inr
    by (auto simp: bindE_eq_Inr)
  from c obtain palm where p: "item landmarks 0 = Some palm" "ly palm = c"
    by (auto simp: getY_eq_Inr)
  show ?thesis
  proof (cases g)
    case Open
    with g o have "isOpen" by simp
    with o p show ?thesis unfolding Open
      by (auto simp: andE_eq_True bindE_eq_Inr getY_eq_Inr)
  next
    case Two
    with g t have "isTwo" by simp
    with t p show ?thesis unfolding Two
      by (auto simp: andE_eq_True bindE_eq_Inr getY_eq_Inr)
  next
    case Rock
    with g r have "isRock" by simp
    with r p show ?thesis unfolding Rock
      by (auto simp: andE_eq_True bindE_eq_Inr getY_eq_Inr)
  next
    case ThumbsUp
    with g u have "isThumbsUp" by simp
    with u p show ?thesis unfolding ThumbsUp
      by (auto simp: andE_eq_True bindE_eq_Inr getY_eq_Inr)
  next
    case Fist
    with g f have "isFist" by simp
    with f p show ?thesis unfolding Fist
      by (auto simp: andE_eq_True bindE_eq_Inr getY_eq_Inr)
  qed
qed

lemma SimonSays_checkGesture_palm:
  assumes "SimonSays_checkGesture landmarks g = Inr b"
  shows "\<exists>sx sy mcpY. palmSum landmarks = Inr (sx, sy) \<and> getY (item landmarks 9) = Inr mcpY"
  using assms unfolding SimonSays_checkGesture_def
  by (auto simp: bindE_eq_Inr Let_def split: prod.splits)

lemma SimonSays_checkGesture_True:
  assumes "SimonSays_checkGesture landmarks (Some g) = Inr True"
    and p: "palmSum landmarks = Inr (sx, sy)" and m: "getY (item landmarks 9) = Inr mcpY"
    and up: "up = sy / real (length palmIndices) - \<bar>mcpY - sy / real (length palmIndices)\<bar> * 0.5"
    and down: "down = sy / real (length palmIndices) + \<bar>mcpY - sy / real (length palmIndices)\<bar> * 0.3"
  shows "\<exists>index middle ring pinky.
        item landmarks 8 = Some index \<and>
        item landmarks 12 = Some middle \<and> item landmarks 16 = Some ring \<and>
        item landmarks 20 = Some pinky \<and>
        (case g of
           Open \<Rightarrow> ly index < up \<and> ly middle < up \<and> ly ring < up \<and> ly pinky < up
         | Two \<Rightarrow> ly index < up \<and> ly middle < up \<and> ly ring > down \<and> ly pinky > down
         | Rock \<Rightarrow> ly index < up \<and> ly middle > down \<and> ly ring > down \<and> ly pinky < up
         | ThumbsUp \<Rightarrow> (\<exists>thumb. item landmarks 4 = Some thumb \<and> ly thumb < up) \<and>
               ly index > down \<and> ly middle > down \<and> ly ring > down \<and> ly pinky > down
         | Fist \<Rightarrow> (\<exists>thumb. item landmarks 4 = Some thumb \<and> ly thumb > down) \<and>
               ly index > down \<and> ly middle > down \<and> ly ring > down \<and> ly pinky > down)"
proof -
  from assms(1) p m obtain r_open r_two r_rock r_thumbs r_fist where
    o: "andE (bindE (getY (item landmarks 8)) (\<lambda>y. Inr (y < up)))
         (andE (bindE (getY (item landmarks 12)) (\<lambda>y. Inr (y < up)))
         (andE (bindE (getY (item landmarks 16)) (\<lambda>y. Inr (y < up)))
         (andE (bindE (getY (item landmarks 20)) (\<lambda>y. Inr (y < up)))
           (bindE (getX (item landmarks 4))
              (\<lambda>tx. Inr (\<bar>tx - sx / real (length palmIndices)\<bar>
                            > \<bar>mcpY - sy / real (length palmIndices)\<bar> * 0.3)))))) = Inr r_open"
    and t: "andE (bindE (getY (item landmarks 8)) (\<lambda>y. Inr (y < up)))
         (andE (bindE (getY (item landmarks 12)) (\<lambda>y. Inr (y < up)))
         (andE (bindE (getY (item landmarks 16)) (\<lambda>y. Inr (y > down)))
           (bindE (getY (item landmarks 20)) (\<lambda>y. Inr (y > down))))) = Inr r_two"
    and r: "andE (bindE (getY (item landmarks 8)) (\<lambda>y. Inr (y < up)))
         (andE (bindE (getY (item landmarks 12)) (\<lambda>y. Inr (y > down)))
         (andE (bindE (getY (item landmarks 16)) (\<lambda>y. Inr (y > down)))
           (bindE (getY (item landmarks 20)) (\<lambda>y. Inr (y < up))))) = Inr r_rock"
    and u: "andE (bindE (getY (item landmarks 4)) (\<lambda>y. Inr (y < up)))
         (andE (bindE (getY (item landmarks 8)) (\<lambda>y. Inr (y > down)))
         (andE (bindE (getY (item landmarks 12)) (\<lambda>y. Inr (y > down)))
         (andE (bindE (getY (item landmarks 16)) (\<lambda>y. Inr (y > down)))
           (bindE (getY (item landmarks 20)) (\<lambda>y. Inr (y > down)))))) = Inr r_thumbs"
    and f: "andE (bindE (getY (item landmarks 8)) (\<lambda>y. Inr (y > down)))
         (andE (bindE (getY (item landmarks 12)) (\<lambda>y. Inr (y > down)))
         (andE (bindE (getY (item landmarks 16)) (\<lambda>y. Inr (y > down)))
         (andE (bindE (getY (item landmarks 20)) (\<lambda>y. Inr (y > down)))
           (bindE (getY (item landmarks 4)) (\<lambda>y. Inr (y > down)))))) = Inr r_fist"
    and g: "(case g of Open \<Rightarrow> r_open | Two \<Rightarrow> r_two | Rock \<Rightarrow> r_rock
              | ThumbsUp \<Rightarrow> r_thumbs | Fist \<Rightarrow> r_fist)"
    unfolding SimonSays_checkGesture_def Let_def up down
    by (auto simp: bindE_eq_Inr split: prod.splits)
  show ?thesis
  proof (cases g)
    case Open
    with g o have "r_open" by simp
    with o show ?thesis unfolding Open
      by (auto simp: andE_eq_True bindE_eq_Inr getY_eq_Inr)
  next
    case Two
    with g t have "r_two" by simp
    with t show ?thesis unfolding Two
      by (auto simp: andE_eq_True bindE_eq_Inr getY_eq_Inr)
  next
    case Rock
    with g r have "r_rock" by simp
    with r show ?thesis unfolding Rock
      by (auto simp: andE_eq_True bindE_eq_Inr getY_eq_Inr)
  next
    case ThumbsUp
    with g u have "r_thumbs" by simp
    with u show ?thesis unfolding ThumbsUp
      by (auto simp: andE_eq_True bindE_eq_Inr getY_eq_Inr)
  next
    case Fist
    with g f have "r_fist" by simp
    with f show ?thesis unfolding Fist
      by (auto simp: andE_eq_True bindE_eq_Inr getY_eq_Inr)
  qed
qed

lemma length_hand_of: "length (hand_of p) = 21"
  by (simp add: hand_of_def)

lemma item_hand_of:
  "0 \<le> i \<Longrightarrow> i < 21 \<Longrightarrow>
   item (hand_of p) i = Some \<lparr>lx = fst (p (nat i)), ly = snd (p (nat i))\<rparr>"
  by (simp add: item_def hand_of_def nat_less_iff)

lemma getY_Some [simp]: "getY (Some q) = Inr (ly q)"
  by (simp add: getY_def)

lemma getX_Some [simp]: "getX (Some q) = Inr (lx q)"
  by (simp add: getX_def)

lemma MemoryMatch_exclusive:
  assumes "g1 \<noteq> g2" "{g1, g2} \<noteq> {ThumbsUp, Fist}"
    and "MemoryMatch_checkGesture landmarks (Some g1) = Inr True"
  shows "MemoryMatch_checkGesture landmarks (Some g2) \<noteq> Inr True"
proof
  assume "MemoryMatch_checkGesture landmarks (Some g2) = Inr True"
  from MemoryMatch_checkGesture_True [OF assms(3)] MemoryMatch_checkGesture_True [OF this]
  show False
    using assms(1,2) by (cases g1; cases g2) auto
qed

lemma SimonSays_exclusive:
  assumes "g1 \<noteq> g2"
    and "SimonSays_checkGesture landmarks (Some g1) = Inr True"
  shows "SimonSays_checkGesture landmarks (Some g2) \<noteq> Inr True"
proof
  assume g2: "SimonSays_checkGesture landmarks (Some g2) = Inr True"
  from SimonSays_checkGesture_palm [OF g2] obtain sx sy mcpY where
    p: "palmSum landmarks = Inr (sx, sy)" and m: "getY (item landmarks 9) = Inr mcpY"
    by blast
  define up where "up = sy / real (length palmIndices) - \<bar>mcpY - sy / real (length palmIndices)\<bar> * 0.5"
  define down where "down = sy / real (length palmIndices) + \<bar>mcpY - sy / real (length palmIndices)\<bar> * 0.3"
  have ud: "up \<le> down" by (simp add: up_def down_def)
  from SimonSays_checkGesture_True [OF assms(2) p m up_def down_def]
    SimonSays_checkGesture_True [OF g2 p m up_def down_def] ud assms(1)
  show False
    by (cases g1; cases g2) auto
qed

lemma items_thumb_fist_hand:
  "item thumb_fist_hand 0 = Some \<lparr>lx = 1 / 2, ly = 1 / 2\<rparr>"
  "item thumb_fist_hand 3 = Some \<lparr>lx = 1 / 2, ly = 1 / 2\<rparr>"
  "item thumb_fist_hand 4 = Some \<lparr>lx = 1 / 2, ly = 11 / 20\<rparr>"
  "item thumb_fist_hand 8 = Some \<lparr>lx = 1 / 2, ly = 3 / 5\<rparr>"
  "item thumb_fist_hand 12 = Some \<lparr>lx = 1 / 2, ly = 3 / 5\<rparr>"
  "item thumb_fist_hand 16 = Some \<lparr>lx = 1 / 2, ly = 3 / 5\<rparr>"
  "item thumb_fist_hand 20 = Some \<lparr>lx = 1 / 2, ly = 3 / 5\<rparr>"
  by (simp_all add: thumb_fist_hand_def item_hand_of)

lemma items_open_hand:
  "item open_hand 0 = Some \<lparr>lx = 1 / 2, ly = 4 / 5\<rparr>"
  "item open_hand 1 = Some \<lparr>lx = 1 / 2, ly = 7 / 10\<rparr>"
  "item open_hand 3 = Some \<lparr>lx = 1 / 2, ly = 3 / 5\<rparr>"
  "item open_hand 4 = Some \<lparr>lx = 3 / 10, ly = 3 / 5\<rparr>"
  "item open_hand 5 = Some \<lparr>lx = 1 / 2, ly = 3 / 5\<rparr>"
  "item open_hand 9 = Some \<lparr>lx = 1 / 2, ly = 3 / 5\<rparr>"
  "item open_hand 13 = Some \<lparr>lx = 1 / 2, ly = 3 / 5\<rparr>"
  "item open_hand 17 = Some \<lparr>lx = 1 / 2, ly = 3 / 5\<rparr>"
  "item open_hand 8 = Some \<lparr>lx = 1 / 2, ly = 1 / 5\<rparr>"
  "item open_hand 12 = Some \<lparr>lx = 1 / 2, ly = 1 / 5\<rparr>"
  "item open_hand 16 = Some \<lparr>lx = 1 / 2, ly = 1 / 5\<rparr>"
  "item open_hand 20 = Some \<lparr>lx = 1 / 2, ly = 1 / 5\<rparr>"
  by (simp_all add: open_hand_def item_hand_of)

lemma MemoryMatch_thumb_fist_hand:
  "MemoryMatch_checkGesture thumb_fist_hand (Some ThumbsUp) = Inr True"
  "MemoryMatch_checkGesture thumb_fist_hand (Some Fist) = Inr True"
  by (simp_all add: MemoryMatch_checkGesture_def items_thumb_fist_hand)

lemma MemoryMatch_open_hand:
  "MemoryMatch_checkGesture open_hand (Some Open) = Inr True"
  by (simp add: MemoryMatch_checkGesture_def items_open_hand)

lemma palmSum_open_hand: "palmSum open_hand = Inr (3, 39 / 10)"
  by (simp add: palmSum_def palmIndices_def items_open_hand)

lemma SimonSays_open_hand:
  "SimonSays_checkGesture open_hand (Some Open) = Inr True"
  by (simp add: SimonSays_checkGesture_def palmSum_open_hand items_open_hand palmIndices_def)

subsection \<open>Sequences, balls and ticks\<close>

lemma items_two_hand:
  "item two_hand 0 = Some \<lparr>lx = 1 / 2, ly = 1 / 2\<rparr>"
  "item two_hand 3 = Some \<lparr>lx = 1 / 2, ly = 1 / 2\<rparr>"
  "item two_hand 4 = Some \<lparr>lx = 1 / 2, ly = 1 / 2\<rparr>"
  "item two_hand 8 = Some \<lparr>lx = 1 / 2, ly = 1 / 5\<rparr>"
  "item two_hand 12 = Some \<lparr>lx = 1 / 2, ly = 1 / 5\<rparr>"
  "item two_hand 16 = Some \<lparr>lx = 1 / 2, ly = 4 / 5\<rparr>"
  "item two_hand 20 = Some \<lparr>lx = 1 / 2, ly = 4 / 5\<rparr>"
  by (simp_all add: two_hand_def item_hand_of)

lemma MemoryMatch_two_hand:
  "MemoryMatch_checkGesture two_hand (Some Two) = Inr True"
  by (simp add: MemoryMatch_checkGesture_def items_two_hand)

lemma MemoryMatch_no_hand:
  "firstHand f = None \<Longrightarrow>
   MemoryMatch_detectFunction s f = Inr (MemoryMatch_startRound s f, [])"
  by (simp add: MemoryMatch_detectFunction_def Let_def)

lemma MemoryMatch_startRound_length:
  "MemoryMatch_startRound s f = s \<or> length (currentSequenceRef (MemoryMatch_startRound s f)) = 2"
  by (simp add: MemoryMatch_startRound_def Let_def)

lemma randomGesture_3_10: "randomGesture (3 / 10) = Some Two"
  by (simp add: randomGesture_def GESTURES_def item_def)

lemma touchBall_far:
  "\<not> hypot (fst ball - tipX) (snd ball - tipY) < BALL_RADIUS \<Longrightarrow>
   BallGame_touchBall now tipX tipY (idx, ball) acc = acc"
  by (simp add: BallGame_touchBall_def Let_def)

lemma touchBall_near_free:
  "hypot (fst ball - tipX) (snd ball - tipY) < BALL_RADIUS \<Longrightarrow>
   notTapped (tappedIdxRef s) \<Longrightarrow>
   BallGame_touchBall now tipX tipY (idx, ball) (s, touching) =
     (s\<lparr>tappedIdxRef := Some idx,
        feedbackRef := Some (if Some (int idx) = item (sequenceRef s) (int (inputIndexRef s))
                             then Correct else Wrong),
        pendingTimeouts := pendingTimeouts s @ [now + FEEDBACK_TIME]\<rparr>, True)"
  by (simp add: BallGame_touchBall_def Let_def)

lemma touchBall_near_held:
  "hypot (fst ball - tipX) (snd ball - tipY) < BALL_RADIUS \<Longrightarrow>
   \<not> notTapped (tappedIdxRef s) \<Longrightarrow>
   BallGame_touchBall now tipX tipY (idx, ball) (s, touching) = (s, True)"
  by (simp add: BallGame_touchBall_def Let_def)

lemma BallGame_input_tip:
  assumes "gameStateRef s = Input" "firstHand f = Some landmarks" "item landmarks 8 = Some tip"
  shows "BallGame_input s f =
     (let res = fold (BallGame_touchBall (frame_now f) (lx tip * real (canvas_width f))
                        (ly tip * real (canvas_height f)))
                     (enumerate 0 (ballsRef s)) (s, False)
      in if \<not> snd res \<and> feedbackRef (fst res) = None
         then Inr ((fst res)\<lparr>tappedIdxRef := None\<rparr>) else Inr (fst res))"
  using assms by (simp add: BallGame_input_def Let_def)

lemma BallGame_detectFunction_input:
  assumes "gameStateRef s = Input"
  shows "BallGame_detectFunction s f = bindE (BallGame_input s f) (\<lambda>s3. Inr (s3, []))"
  using assms by (simp add: BallGame_detectFunction_def BallGame_init_def BallGame_show_def Let_def)

lemma enumerate_balls:
  "enumerate 0 [(100, 100), (300, 100), (500, 100), (700::real, 100::real)]
     = [(0, (100, 100)), (1, (300, 100)), (2, (500, 100)), (3, (700, 100))]"
  by simp

lemma fold_touch0:
  assumes "ballsRef s = [(100, 100), (300, 100), (500, 100), (700, 100)]"
    and "notTapped (tappedIdxRef s)"
  shows "fold (BallGame_touchBall now 100 100) (enumerate 0 (ballsRef s)) (s, False) =
     (s\<lparr>tappedIdxRef := Some 0,
        feedbackRef := Some (if Some 0 = item (sequenceRef s) (int (inputIndexRef s))
                             then Correct else Wrong),
        pendingTimeouts := pendingTimeouts s @ [now + FEEDBACK_TIME]\<rparr>, True)"
proof -
  have n: "hypot (fst (100, 100) - 100) (snd (100, 100) - 100) < BALL_RADIUS"
    by (simp add: hypot_def BALL_RADIUS_def)
  have f: "\<not> hypot (fst (300, 100) - 100) (snd (300, 100) - 100) < BALL_RADIUS"
    "\<not> hypot (fst (500, 100) - 100) (snd (500, 100) - 100) < BALL_RADIUS"
    "\<not> hypot (fst (700, 100) - 100) (snd (700, 100) - 100) < BALL_RADIUS"
    by (simp_all add: hypot_less_iff BALL_RADIUS_def)
  show ?thesis
    unfolding assms(1) enumerate_balls
    using touchBall_near_free [OF n assms(2), of now 0 False] f
    by (simp add: touchBall_far)
qed

lemma fold_touch1:
  assumes "ballsRef s = [(100, 100), (300, 100), (500, 100), (700, 100)]"
  shows "fold (BallGame_touchBall now 300 100) (enumerate 0 (ballsRef s)) (s, False) =
     BallGame_touchBall now 300 100 (1, (300, 100)) (s, False)"
proof -
  have f: "\<not> hypot (fst (100, 100) - 300) (snd (100, 100) - 100) < BALL_RADIUS"
    "\<not> hypot (fst (500, 100) - 300) (snd (500, 100) - 100) < BALL_RADIUS"
    "\<not> hypot (fst (700, 100) - 300) (snd (700, 100) - 100) < BALL_RADIUS"
    by (simp_all add: hypot_less_iff BALL_RADIUS_def)
  show ?thesis
    unfolding assms(1) enumerate_balls
    using f by (simp add: touchBall_far)
qed

lemma touch0_first:
  "BallGame_detectFunction balls_input (example_frame 2000 (Some [pointer_hand (1 / 10) (1 / 10)]) 0)
     = Inr (balls_touch0_once, [])"
proof -
  have g: "gameStateRef balls_input = Input" by (simp add: balls_input_def)
  have b: "ballsRef balls_input = [(100, 100), (300, 100), (500, 100), (700, 100)]"
    by (simp add: balls_input_def)
  have t: "notTapped (tappedIdxRef balls_input)"
    by (simp add: balls_input_def notTapped_def)
  show ?thesis
    unfolding BallGame_detectFunction_input [OF g]
      BallGame_input_tip [OF g firstHand_example item_pointer_hand]
    by (simp add: example_frame_def fold_touch0 [OF b t] Let_def)
      (simp add: balls_input_def balls_touch0_once_def item_def FEEDBACK_TIME_def)
qed

lemma touch0_second:
  "BallGame_detectFunction balls_touch0_once
       (example_frame 2016 (Some [pointer_hand (1 / 10) (1 / 10)]) 0)
     = Inr (balls_touch0_twice, [])"
proof -
  have g: "gameStateRef balls_touch0_once = Input"
    by (simp add: balls_input_def balls_touch0_once_def)
  have b: "ballsRef balls_touch0_once = [(100, 100), (300, 100), (500, 100), (700, 100)]"
    by (simp add: balls_input_def balls_touch0_once_def)
  have t: "notTapped (tappedIdxRef balls_touch0_once)"
    by (simp add: balls_touch0_once_def notTapped_def)
  show ?thesis
    unfolding BallGame_detectFunction_input [OF g]
      BallGame_input_tip [OF g firstHand_example item_pointer_hand]
    by (simp add: example_frame_def fold_touch0 [OF b t] Let_def)
      (simp add: balls_input_def balls_touch0_once_def balls_touch0_twice_def item_def
        FEEDBACK_TIME_def)
qed

lemma touch1_first:
  "BallGame_detectFunction balls_input (example_frame 2000 (Some [pointer_hand (3 / 10) (1 / 10)]) 0)
     = Inr (balls_touch1, [])"
proof -
  have g: "gameStateRef balls_input = Input" by (simp add: balls_input_def)
  have b: "ballsRef balls_input = [(100, 100), (300, 100), (500, 100), (700, 100)]"
    by (simp add: balls_input_def)
  have t: "notTapped (tappedIdxRef balls_input)"
    by (simp add: balls_input_def notTapped_def)
  have n: "hypot (fst (300, 100) - 300) (snd (300, 100) - 100) < BALL_RADIUS"
    by (simp add: hypot_def BALL_RADIUS_def)
  show ?thesis
    unfolding BallGame_detectFunction_input [OF g]
      BallGame_input_tip [OF g firstHand_example item_pointer_hand]
    by (simp add: example_frame_def fold_touch1 [OF b] touchBall_near_free [OF n t] Let_def)
      (simp add: balls_input_def balls_touch1_def item_def FEEDBACK_TIME_def)
qed

lemma touch1_second:
  "BallGame_detectFunction balls_touch1 (example_frame 2016 (Some [pointer_hand (3 / 10) (1 / 10)]) 0)
     = Inr (balls_touch1, [])"
proof -
  have g: "gameStateRef balls_touch1 = Input"
    by (simp add: balls_input_def balls_touch1_def)
  have b: "ballsRef balls_touch1 = [(100, 100), (300, 100), (500, 100), (700, 100)]"
    by (simp add: balls_input_def balls_touch1_def)
  have t: "\<not> notTapped (tappedIdxRef balls_touch1)"
    by (simp add: balls_touch1_def notTapped_def)
  have n: "hypot (fst (300, 100) - 300) (snd (300, 100) - 100) < BALL_RADIUS"
    by (simp add: hypot_def BALL_RADIUS_def)
  show ?thesis
    unfolding BallGame_detectFunction_input [OF g]
      BallGame_input_tip [OF g firstHand_example item_pointer_hand]
    by (simp add: example_frame_def fold_touch1 [OF b] touchBall_near_held [OF n t] Let_def)
qed

lemma fire_first:
  "BallGame_fireTimeout balls_touch0_twice 2500 0 =
     (balls_input\<lparr>sequenceRef := [0, 0], flashIndexRef := 0, lastTimeRef := 2500,
                  gameStateRef := Show, inputIndexRef := 1, pendingTimeouts := [2516]\<rparr>,
      [Increment])"
  by (simp add: BallGame_fireTimeout_def BallGame_feedbackTimeout_def balls_touch0_twice_def
      balls_input_def Let_def BALL_COUNT_def)

lemma fire_second:
  "BallGame_fireTimeout
     (balls_input\<lparr>sequenceRef := [0, 0], flashIndexRef := 0, lastTimeRef := 2500,
                  gameStateRef := Show, inputIndexRef := 1, pendingTimeouts := [2516]\<rparr>) 2516 0 =
     (balls_input\<lparr>sequenceRef := [0, 0, 0], flashIndexRef := 0, lastTimeRef := 2516,
                  gameStateRef := Show, inputIndexRef := 2, pendingTimeouts := []\<rparr>,
      [Increment])"
  by (simp add: BallGame_fireTimeout_def BallGame_feedbackTimeout_def
      balls_input_def Let_def BALL_COUNT_def)

lemma ShapeTracing_updates:
  assumes "ShapeTracing_detectFunction s f = Inr (s', us)"
  shows "us = [] \<or> us = [Increment]"
proof -
  from detectFunction_shape [OF assms] obtain t where "(s', us) = ShapeTracing_finish t"
    by blast
  then show ?thesis by (auto simp: ShapeTracing_finish_eq split: if_splits)
qed

lemma MemoryMatch_updates:
  assumes "MemoryMatch_detectFunction s f = Inr (s', us)"
  shows "us = [] \<or> us = [Increment]"
  using assms unfolding MemoryMatch_detectFunction_def Let_def
  by (auto simp: bindE_eq_Inr split: option.splits if_splits)

lemma SimonSays_updates:
  assumes "SimonSays_detectFunction s f = Inr (s', us)"
  shows "us = [] \<or> us = [Increment]"
  using assms unfolding SimonSays_detectFunction_def Let_def
  by (auto simp: bindE_eq_Inr split: option.splits if_splits)

lemma SwipeChallenge_updates:
  assumes "SwipeChallenge_detectFunction s f = Inr (s', us)"
  shows "us = [] \<or> us = [Increment]"
  using assms unfolding SwipeChallenge_detectFunction_def Let_def
  by (auto split: option.splits if_splits)

lemma QuickReaction_updates:
  assumes "QuickReaction_detectFunction s f = Inr (s', us)"
  shows "us = [] \<or> us = [Increment]"
  using assms unfolding QuickReaction_detectFunction_def Let_def
  by (auto split: option.splits if_splits)

lemma BallGame_updates:
  assumes "BallGame_detectFunction s f = Inr (s', us)"
  shows "us = (if gameStateRef s = Init then [SetTo 0] else [])"
  using assms unfolding BallGame_detectFunction_def Let_def
  by (auto simp: bindE_eq_Inr BallGame_init_def Let_def)

lemma BallGame_timeout_updates:
  assumes "BallGame_fireTimeout s now' r = (s', us)"
  shows "us = [] \<or> us = [Increment]"
  using assms unfolding BallGame_fireTimeout_def BallGame_feedbackTimeout_def Let_def
  by (auto split: list.splits if_splits)

lemma increments_grow:
  "us = [] \<or> us = [Increment] \<Longrightarrow> score \<le> applyScores us score"
  by (auto simp: applyScores_def)

lemma ShapeTracing_no_hand:
  "firstHand f = None \<Longrightarrow>
   ShapeTracing_detectFunction s f = Inr (ShapeTracing_finish (ShapeTracing_chooseShape s f))"
  by (simp add: ShapeTracing_detectFunction_def Let_def)

lemma SimonSays_no_hand:
  "firstHand f = None \<Longrightarrow>
   SimonSays_detectFunction s f = Inr (SimonSays_startRound s f, [])"
  by (simp add: SimonSays_detectFunction_def Let_def)

lemma QuickReaction_no_hand:
  "firstHand f = None \<Longrightarrow>
   QuickReaction_detectFunction s f = Inr (QuickReaction_spawn s f, [])"
  by (simp add: QuickReaction_detectFunction_def Let_def)

lemma BallGame_input_no_hand:
  "firstHand f = None \<Longrightarrow> BallGame_input s f = Inr s"
  by (simp add: BallGame_input_def Let_def)

lemma BallGame_no_hand:
  "firstHand f = None \<Longrightarrow>
   BallGame_detectFunction s f =
     Inr (BallGame_show (fst (BallGame_init s f)) f, snd (BallGame_init s f))"
  by (simp add: BallGame_detectFunction_def Let_def BallGame_input_no_hand)

lemma BallGame_init_show_frame:
  "inputIndexRef (BallGame_show (fst (BallGame_init s f)) f) \<in> {inputIndexRef s, 0}
   \<and> pendingTimeouts (BallGame_show (fst (BallGame_init s f)) f) = pendingTimeouts s"
  by (simp add: BallGame_init_def BallGame_show_def Let_def)

lemma MemoryMatch_startRound_step:
  "currentStepRef (MemoryMatch_startRound s f) =
     (if length (currentSequenceRef s) = 0 \<or>
         frame_now f - mm_roundTimerRef s > MemoryMatch_ROUND_TIME * 1000
      then 0 else currentStepRef s)"
  by (simp add: MemoryMatch_startRound_def Let_def)

text \<open>What every frame of ShapeTracing establishes, whatever state it starts from.\<close>

lemma ShapeTracing_after_frame:
  assumes "ShapeTracing_detectFunction s f = Inr (s', us)"
  shows "card (checkpointsHitRef s') < 14
       \<and> (shapeTypeRef s' = None \<longrightarrow> checkpointsHitRef s' = {})"
proof -
  let ?c = "ShapeTracing_chooseShape s f"
  have c: "shapeTypeRef ?c = None \<longrightarrow> checkpointsHitRef ?c = {}"
    by (auto simp: ShapeTracing_chooseShape_def)
  have ft: "shapeTypeRef (ShapeTracing_followTip ?c now cx cy r sz tx ty) = None \<longrightarrow>
      checkpointsHitRef (ShapeTracing_followTip ?c now cx cy r sz tx ty) = {}"
    for now cx cy r sz tx ty
    using c by (auto simp: ShapeTracing_followTip_def Let_def split: option.splits shape.splits)
  from detectFunction_shape [OF assms] c ft obtain t where
    t: "(s', us) = ShapeTracing_finish t"
       "shapeTypeRef t = None \<longrightarrow> checkpointsHitRef t = {}"
    by metis
  then show ?thesis
    by (auto simp: ShapeTracing_finish_eq split: if_splits)
qed

lemma ShapeTracing_reachable:
  assumes "ShapeTracing_run s fs = Inr (s', us)"
    and "card (checkpointsHitRef s) < 14 \<and> (shapeTypeRef s = None \<longrightarrow> checkpointsHitRef s = {})"
  shows "card (checkpointsHitRef s') < 14 \<and> (shapeTypeRef s' = None \<longrightarrow> checkpointsHitRef s' = {})"
  using assms
proof (induction fs arbitrary: s us)
  case Nil
  then show ?case by simp
next
  case (Cons f fs)
  from Cons.prems(1) obtain s1 us1 us2 where
    st: "ShapeTracing_detectFunction s f = Inr (s1, us1)"
    and rn: "ShapeTracing_run s1 fs = Inr (s', us2)"
    by (auto split: sum.splits prod.splits)
  from Cons.IH [OF rn ShapeTracing_after_frame [OF st]] show ?case .
qed

lemma ShapeTracing_no_hand_reachable:
  assumes "ShapeTracing_run ShapeTracing_initial before = Inr (s, us0)"
    and "firstHand f = None"
  shows "ShapeTracing_detectFunction s f = Inr (ShapeTracing_chooseShape s f, [])
       \<and> checkpointsHitRef (ShapeTracing_chooseShape s f) = checkpointsHitRef s"
proof -
  have i: "card (checkpointsHitRef s) < 14 \<and> (shapeTypeRef s = None \<longrightarrow> checkpointsHitRef s = {})"
    by (rule ShapeTracing_reachable [OF assms(1)]) (simp add: ShapeTracing_initial_def)
  then have h: "checkpointsHitRef (ShapeTracing_chooseShape s f) = checkpointsHitRef s"
    by (simp add: ShapeTracing_chooseShape_def)
  with i have "ShapeTracing_finish (ShapeTracing_chooseShape s f) = (ShapeTracing_chooseShape s f, [])"
    by (simp add: finish_below)
  with h show ?thesis
    by (simp add: ShapeTracing_no_hand [OF assms(2)])
qed

lemma fire_wrong: "BallGame_fireTimeout balls_touch1 2500 0 = (balls_failed, [])"
  by (simp add: BallGame_fireTimeout_def BallGame_feedbackTimeout_def balls_touch1_def
      balls_failed_def balls_input_def Let_def)

lemma balls_failed_tick:
  "BallGame_detectFunction balls_failed (example_frame 2516 None 0) =
     Inr (balls_failed\<lparr>ballsRef := [(30, 30), (30, 30), (30, 30), (30, 30)],
                       sequenceRef := [0], flashIndexRef := 0, lastTimeRef := 2516,
                       gameStateRef := Show\<rparr>, [SetTo 0])"
proof -
  have u: "[0..<BALL_COUNT] = [0, 1, 2, 3]"
    by (simp add: BALL_COUNT_def upt_rec)
  have i: "BallGame_init balls_failed (example_frame 2516 None 0) =
     (balls_failed\<lparr>ballsRef := [(30, 30), (30, 30), (30, 30), (30, 30)],
                       sequenceRef := [0], flashIndexRef := 0, lastTimeRef := 2516,
                       gameStateRef := Show\<rparr>, [SetTo 0])"
    unfolding BallGame_init_def Let_def u
    by (simp add: balls_failed_def balls_input_def example_frame_def BALL_RADIUS_def)
  show ?thesis
    unfolding BallGame_no_hand [OF firstHand_example_None] i
    by (simp add: BallGame_show_def example_frame_def FLASH_TIME_def WAIT_TIME_def)
qed

lemma circle13_tick:
  "ShapeTracing_detectFunction circle13 (example_frame 16 (Some [pointer_hand 0.5 0.8]) 0)
     = Inr (\<lparr>shapeTypeRef = None, checkpointsHitRef = {}, trailPointsRef = [],
             drawingStartedRef = False\<rparr>, [Increment])"
proof -
  have k: "card (checkpointsHitRef (ShapeTracing_followTip circle13 16 500 500 300 600 500 800)) = 14"
    unfolding circle13_followTip by (simp add: circle13_def)
  have ch: "ShapeTracing_chooseShape circle13 f = circle13" for f
    by (simp add: ShapeTracing_chooseShape_def circle13_def)
  have d: "ShapeTracing_detectFunction circle13 (example_frame 16 (Some [pointer_hand 0.5 0.8]) 0)
      = Inr (ShapeTracing_finish (ShapeTracing_followTip circle13 16 500 500 300 600 500 800))"
    unfolding detectFunction_tip [OF firstHand_example item_pointer_hand] ch
    by (simp add: example_frame_def)
  have f: "ShapeTracing_finish (ShapeTracing_followTip circle13 16 500 500 300 600 500 800)
      = (\<lparr>shapeTypeRef = None, checkpointsHitRef = {}, trailPointsRef = [],
               drawingStartedRef = False\<rparr>, [Increment])"
    unfolding ShapeTracing_finish_eq k by (simp add: circle13_followTip circle13_def)
  show ?thesis unfolding d f ..
qed

lemma memory_second_step_tick:
  "MemoryMatch_detectFunction memory_second_step (example_frame 1000 (Some [two_hand]) 0)
       = Inr (\<lparr>currentSequenceRef = [], currentStepRef = 0, mm_roundTimerRef = 0\<rparr>, [Increment])"
proof -
  have s: "MemoryMatch_startRound memory_second_step (example_frame 1000 (Some [two_hand]) 0)
      = memory_second_step"
    by (simp add: MemoryMatch_startRound_def memory_second_step_def example_frame_def
        MemoryMatch_ROUND_TIME_def)
  have t: "item (currentSequenceRef memory_second_step) (int (currentStepRef memory_second_step))
      = Some (Some Two)"
    by (simp add: memory_second_step_def item_def)
  show ?thesis
    unfolding MemoryMatch_detectFunction_def Let_def s firstHand_example t
    by (simp add: MemoryMatch_two_hand) (simp add: memory_second_step_def)
qed

lemma swipe_right_pending_tick:
  "SwipeChallenge_detectFunction swipe_right_pending
         (example_frame 100 (Some [pointer_hand (1 / 5) (51 / 100)]) 0)
       = Inr (\<lparr>currentDirectionRef = None, swipeStartRef = None, sw_roundTimerRef = 100\<rparr>,
              [Increment])"
proof -
  let ?f = "example_frame 100 (Some [pointer_hand (1 / 5) (51 / 100)]) 0"
  let ?tip = "\<lparr>lx = 1 / 5, ly = 51 / 100\<rparr>"
  have a3: "currentDirectionRef swipe_right_pending = Some Right"
    and a5: "swipeStartRef swipe_right_pending = Some (100, 500, 0)"
    by (simp_all add: swipe_right_pending_def)
  have a4: "\<not> frame_now ?f - sw_roundTimerRef swipe_right_pending > SwipeChallenge_ROUND_TIME * 1000"
    by (simp add: swipe_right_pending_def example_frame_def SwipeChallenge_ROUND_TIME_def)
  have a6: "hypot (lx ?tip * real (canvas_width ?f) - 100)
                 (ly ?tip * real (canvas_height ?f) - 500) > 80"
    by (simp add: example_frame_def hypot_greater_iff)
  show ?thesis
    unfolding SwipeChallenge_swipe [OF firstHand_example item_pointer_hand a3 a4 a5 a6]
    by (simp add: swipe_right_pending_def example_frame_def getSwipeDirection_def)
qed

lemma SimonSays_initial_tick:
  "SimonSays_detectFunction (SimonSays_initial 0) (example_frame 16 None 0)
     = Inr (\<lparr>gestureRef = Some Open, timerRef = 16\<rparr>, [])"
  unfolding SimonSays_no_hand [OF firstHand_example_None]
  by (simp add: SimonSays_startRound_def SimonSays_initial_def example_frame_def GESTURES_def
      item_def)

lemma QuickReaction_initial_tick:
  "QuickReaction_detectFunction (QuickReaction_initial 0) (example_frame 16 None 0)
     = Inr (\<lparr>targetRef = Some (30, 30, 16), lastSpawnRef = 16, reactionTime = None\<rparr>, [])"
  unfolding QuickReaction_no_hand [OF firstHand_example_None]
  by (simp add: QuickReaction_spawn_def QuickReaction_initial_def example_frame_def
      TARGET_RADIUS_def)

lemma memory_restart_tick:
  "MemoryMatch_detectFunction
         \<lparr>currentSequenceRef = [], currentStepRef = 0, mm_roundTimerRef = 0\<rparr>
         (example_frame 1016 None (3 / 10))
       = Inr (\<lparr>currentSequenceRef = [Some Two, Some Two], currentStepRef = 0,
               mm_roundTimerRef = 1016\<rparr>, [])"
proof -
  have n: "MemoryMatch_startRound \<lparr>currentSequenceRef = [], currentStepRef = 0, mm_roundTimerRef = 0\<rparr>
         (example_frame 1016 None (3 / 10))
       = \<lparr>currentSequenceRef = [Some Two, Some Two], currentStepRef = 0, mm_roundTimerRef = 1016\<rparr>"
    unfolding MemoryMatch_startRound_def Let_def
    by (simp add: example_frame_def randomGesture_3_10)
  show ?thesis
    unfolding MemoryMatch_no_hand [OF firstHand_example_None] n ..
qed

lemma memory_second_step_timeout:
  "MemoryMatch_detectFunction memory_second_step (example_frame 8001 None (3 / 10))
     = Inr (\<lparr>currentSequenceRef = [Some Two, Some Two], currentStepRef = 0,
             mm_roundTimerRef = 8001\<rparr>, [])"
proof -
  have n: "MemoryMatch_startRound memory_second_step (example_frame 8001 None (3 / 10))
       = \<lparr>currentSequenceRef = [Some Two, Some Two], currentStepRef = 0, mm_roundTimerRef = 8001\<rparr>"
    unfolding MemoryMatch_startRound_def Let_def
    by (simp add: example_frame_def randomGesture_3_10 memory_second_step_def
        MemoryMatch_ROUND_TIME_def)
  show ?thesis
    unfolding MemoryMatch_no_hand [OF firstHand_example_None] n ..
qed

lemma memory_second_step_waits:
  "MemoryMatch_detectFunction memory_second_step (example_frame 1000 None (3 / 10))
     = Inr (memory_second_step, [])"
proof -
  have n: "MemoryMatch_startRound memory_second_step (example_frame 1000 None (3 / 10))
       = memory_second_step"
    unfolding MemoryMatch_startRound_def Let_def
    by (simp add: example_frame_def memory_second_step_def MemoryMatch_ROUND_TIME_def)
  show ?thesis
    unfolding MemoryMatch_no_hand [OF firstHand_example_None] n ..
qed

lemma square0_no_hand:
  "ShapeTracing_detectFunction square0 (example_frame 1000 None (3 / 10)) = Inr (square0, [])"
  unfolding ShapeTracing_no_hand [OF firstHand_example_None]
  by (simp add: ShapeTracing_chooseShape_def ShapeTracing_finish_eq square0_def)

lemma balls_input_no_hand:
  "BallGame_detectFunction balls_input (example_frame 1000 None (3 / 10)) = Inr (balls_input, [])"
  unfolding BallGame_no_hand [OF firstHand_example_None]
  by (simp add: BallGame_init_def BallGame_show_def balls_input_def)

section \<open>The claims\<close>

subsection \<open>C1\<close>

text \<open>
  Claim C1. While a square is the active shape of ShapeTracing, the hit-set holds indices
  \<open>0..11\<close> only: \<^verbatim>\<open>checkSquareHit\<close> tests 12 points, all on the left, top or right
  side. Its size therefore stays below the completion threshold
  \<open>floor (16 * 0.9) = 14\<close>, and over any sequence of frames no score update is emitted and
  the square stays the active shape. The state \<open>s\<close> is any state the game reaches from
  its initial refs in which a square is active.
\<close>

theorem square_never_completes:
  assumes "ShapeTracing_run ShapeTracing_initial before = Inr (s, us0)"
    and "shapeTypeRef s = Some Square"
    and "ShapeTracing_run s fs = Inr (s', us)"
  shows "length (sides cx cy sz) = 12
       \<and> (\<forall>p \<in> set (sides cx cy sz).
             fst p = cx - sz / 2 \<or> snd p = cy - sz / 2 \<or> fst p = cx + sz / 2)
       \<and> checkSquareHit cx cy sz tx ty S \<subseteq> S \<union> {0..<12}
       \<and> \<lfloor>real CHECKPOINTS * 0.9\<rfloor> = 14
       \<and> checkpointsHitRef s' \<subseteq> {0..<12}
       \<and> card (checkpointsHitRef s') < 14
       \<and> us = []
       \<and> shapeTypeRef s' = Some Square"
proof -
  have sq: "checkpointsHitRef s \<subseteq> {0..<12}"
    using square_invariant_run [OF _ assms(1)] assms(2)
    by (simp add: ShapeTracing_initial_def)
  from square_run [OF assms(2) sq assms(3)]
  have r: "us = []" "shapeTypeRef s' = Some Square" "checkpointsHitRef s' \<subseteq> {0..<12}"
    by simp_all
  have p: "\<forall>p \<in> set (sides cx cy sz).
             fst p = cx - sz / 2 \<or> snd p = cy - sz / 2 \<or> fst p = cx + sz / 2"
    by (simp add: sides_def Let_def)
  from r p card_below_12 [OF r(3)] show ?thesis
    by (simp add: length_sides checkSquareHit_subset CHECKPOINTS_def)
qed

theorem square_never_completes_witness:
  "ShapeTracing_run ShapeTracing_initial [example_frame 0 None 0.7] = Inr (square0, [])
   \<and> shapeTypeRef square0 = Some Square
   \<and> ShapeTracing_run square0 [example_frame 16 (Some [pointer_hand 0.2 0.2]) 0.7] =
       Inr (\<lparr>shapeTypeRef = Some Square, checkpointsHitRef = {0, 4},
             trailPointsRef = [(200, 200, 16)], drawingStartedRef = True\<rparr>, [])
   \<and> card {0, 4::nat} < 14"
proof -
  have sq: "shapeTypeRef square0 = Some Square" by (simp add: square0_def)
  from square_never_completes [OF square0_chosen sq square0_corner] sq
    square0_chosen square0_corner
  show ?thesis by simp
qed

subsection \<open>C2\<close>

text \<open>
  Claim C2. The claim has the score emitted when the 15th distinct checkpoint of the circle
  is hit, \<open>ceil (0.9 * 16) = 15\<close>. The code compares the size of the hit-set with
  \<open>floor (16 * 0.9) = 14\<close>: on a circle with 13 checkpoints hit, the frame whose fingertip
  is on a 14th checkpoint (checkpoint 4, at \<open>(500, 800)\<close> on a 1000 by 1000 canvas) already
  emits the increment and resets the shape.
\<close>

theorem score_after_14th_checkpoint:
  "card (checkpointsHitRef circle13) = 13
   \<and> circleCheckpoint 500 500 300 4 = (500, 800)
   \<and> 4 \<notin> checkpointsHitRef circle13
   \<and> checkpointsHitRef (ShapeTracing_followTip circle13 16 500 500 300 600 500 800)
       = insert 4 (checkpointsHitRef circle13)
   \<and> card (checkpointsHitRef (ShapeTracing_followTip circle13 16 500 500 300 600 500 800)) = 14
   \<and> ShapeTracing_detectFunction circle13 (example_frame 16 (Some [pointer_hand 0.5 0.8]) 0)
       = Inr (\<lparr>shapeTypeRef = None, checkpointsHitRef = {}, trailPointsRef = [],
               drawingStartedRef = False\<rparr>, [Increment])"
proof -
  have c: "card (checkpointsHitRef circle13) = 13" "4 \<notin> checkpointsHitRef circle13"
    by (simp_all add: circle13_def)
  have h: "checkpointsHitRef (ShapeTracing_followTip circle13 16 500 500 300 600 500 800)
       = insert 4 (checkpointsHitRef circle13)"
    by (simp add: circle13_followTip)
  have k: "card (checkpointsHitRef (ShapeTracing_followTip circle13 16 500 500 300 600 500 800)) = 14"
    unfolding h by (simp add: circle13_def)
  from c h k circle13_tick circleCheckpoint_4 show ?thesis by simp
qed

subsection \<open>C3\<close>

text \<open>
  Claim C3, as amended. A tick of ShapeTracing, MemoryMatch, SimonSays, SwipeChallenge or
  QuickReaction emits no score update or one increment, and so does a feedback timeout of
  BallGame; such updates never lower the score. A tick of BallGame emits nothing, except in
  the Init phase, where it sets the score to 0.
\<close>

theorem score_updates_of_every_variant:
  "(ShapeTracing_detectFunction st f1 = Inr (st', us1) \<longrightarrow> us1 = [] \<or> us1 = [Increment])
   \<and> (MemoryMatch_detectFunction mm f2 = Inr (mm', us2) \<longrightarrow> us2 = [] \<or> us2 = [Increment])
   \<and> (SimonSays_detectFunction ss f3 = Inr (ss', us3) \<longrightarrow> us3 = [] \<or> us3 = [Increment])
   \<and> (SwipeChallenge_detectFunction sw f4 = Inr (sw', us4) \<longrightarrow> us4 = [] \<or> us4 = [Increment])
   \<and> (QuickReaction_detectFunction qr f5 = Inr (qr', us5) \<longrightarrow> us5 = [] \<or> us5 = [Increment])
   \<and> (BallGame_detectFunction bg f6 = Inr (bg', us6) \<longrightarrow>
        us6 = (if gameStateRef bg = Init then [SetTo 0] else []))
   \<and> (BallGame_fireTimeout bt now' r = (bt', us7) \<longrightarrow> us7 = [] \<or> us7 = [Increment])
   \<and> (us = [] \<or> us = [Increment] \<longrightarrow> score \<le> applyScores us score)"
proof (intro conjI impI)
  show "us1 = [] \<or> us1 = [Increment]" if "ShapeTracing_detectFunction st f1 = Inr (st', us1)"
    using that by (rule ShapeTracing_updates)
  show "us2 = [] \<or> us2 = [Increment]" if "MemoryMatch_detectFunction mm f2 = Inr (mm', us2)"
    using that by (rule MemoryMatch_updates)
  show "us3 = [] \<or> us3 = [Increment]" if "SimonSays_detectFunction ss f3 = Inr (ss', us3)"
    using that by (rule SimonSays_updates)
  show "us4 = [] \<or> us4 = [Increment]" if "SwipeChallenge_detectFunction sw f4 = Inr (sw', us4)"
    using that by (rule SwipeChallenge_updates)
  show "us5 = [] \<or> us5 = [Increment]" if "QuickReaction_detectFunction qr f5 = Inr (qr', us5)"
    using that by (rule QuickReaction_updates)
  show "us6 = (if gameStateRef bg = Init then [SetTo 0] else [])"
    if "BallGame_detectFunction bg f6 = Inr (bg', us6)"
    using that by (rule BallGame_updates)
  show "us7 = [] \<or> us7 = [Increment]" if "BallGame_fireTimeout bt now' r = (bt', us7)"
    using that by (rule BallGame_timeout_updates)
  show "score \<le> applyScores us score" if "us = [] \<or> us = [Increment]"
    using that by (rule increments_grow)
qed

theorem score_updates_of_every_variant_witness:
  "ShapeTracing_detectFunction circle13 (example_frame 16 (Some [pointer_hand 0.5 0.8]) 0)
     = Inr (\<lparr>shapeTypeRef = None, checkpointsHitRef = {}, trailPointsRef = [],
             drawingStartedRef = False\<rparr>, [Increment])
   \<and> MemoryMatch_detectFunction memory_second_step (example_frame 1000 (Some [two_hand]) 0)
       = Inr (\<lparr>currentSequenceRef = [], currentStepRef = 0, mm_roundTimerRef = 0\<rparr>, [Increment])
   \<and> SimonSays_detectFunction (SimonSays_initial 0) (example_frame 16 None 0)
       = Inr (\<lparr>gestureRef = Some Open, timerRef = 16\<rparr>, [])
   \<and> SwipeChallenge_detectFunction swipe_right_pending
         (example_frame 100 (Some [pointer_hand (1 / 5) (51 / 100)]) 0)
       = Inr (\<lparr>currentDirectionRef = None, swipeStartRef = None, sw_roundTimerRef = 100\<rparr>,
              [Increment])
   \<and> QuickReaction_detectFunction (QuickReaction_initial 0) (example_frame 16 None 0)
       = Inr (\<lparr>targetRef = Some (30, 30, 16), lastSpawnRef = 16, reactionTime = None\<rparr>, [])
   \<and> BallGame_detectFunction balls_input
         (example_frame 2000 (Some [pointer_hand (1 / 10) (1 / 10)]) 0)
       = Inr (balls_touch0_once, [])
   \<and> gameStateRef balls_input \<noteq> Init
   \<and> BallGame_fireTimeout balls_touch1 2500 0 = (balls_failed, [])
   \<and> 3 \<le> applyScores [Increment] 3"
proof -
  note t = score_updates_of_every_variant
    [of circle13 "example_frame 16 (Some [pointer_hand 0.5 0.8]) 0"
        "\<lparr>shapeTypeRef = None, checkpointsHitRef = {}, trailPointsRef = [],
             drawingStartedRef = False\<rparr>" "[Increment]"
        memory_second_step "example_frame 1000 (Some [two_hand]) 0"
        "\<lparr>currentSequenceRef = [], currentStepRef = 0, mm_roundTimerRef = 0\<rparr>" "[Increment]"
        "SimonSays_initial 0" "example_frame 16 None 0"
        "\<lparr>gestureRef = Some Open, timerRef = 16\<rparr>" "[]"
        swipe_right_pending "example_frame 100 (Some [pointer_hand (1 / 5) (51 / 100)]) 0"
        "\<lparr>currentDirectionRef = None, swipeStartRef = None, sw_roundTimerRef = 100\<rparr>"
        "[Increment]"
        "QuickReaction_initial 0" "example_frame 16 None 0"
        "\<lparr>targetRef = Some (30, 30, 16), lastSpawnRef = 16, reactionTime = None\<rparr>" "[]"
        balls_input "example_frame 2000 (Some [pointer_hand (1 / 10) (1 / 10)]) 0"
        balls_touch0_once "[]"
        balls_touch1 2500 0 balls_failed "[]"
        "[Increment]" 3]
  have st: "ShapeTracing_detectFunction circle13 (example_frame 16 (Some [pointer_hand 0.5 0.8]) 0)
     = Inr (\<lparr>shapeTypeRef = None, checkpointsHitRef = {}, trailPointsRef = [],
             drawingStartedRef = False\<rparr>, [Increment])"
    using circle13_tick .
  have mm: "MemoryMatch_detectFunction memory_second_step (example_frame 1000 (Some [two_hand]) 0)
       = Inr (\<lparr>currentSequenceRef = [], currentStepRef = 0, mm_roundTimerRef = 0\<rparr>, [Increment])"
    using memory_second_step_tick .
  have sw: "SwipeChallenge_detectFunction swipe_right_pending
         (example_frame 100 (Some [pointer_hand (1 / 5) (51 / 100)]) 0)
       = Inr (\<lparr>currentDirectionRef = None, swipeStartRef = None, sw_roundTimerRef = 100\<rparr>,
              [Increment])"
    using swipe_right_pending_tick .
  have g: "gameStateRef balls_input \<noteq> Init" by (simp add: balls_input_def)
  have "[] = (if gameStateRef balls_input = Init then [SetTo 0] else [])"
    using t [THEN conjunct2, THEN conjunct2, THEN conjunct2, THEN conjunct2, THEN conjunct2,
             THEN conjunct1, THEN mp, OF touch0_first] .
  moreover have "3 \<le> applyScores [Increment] 3"
    using t [THEN conjunct2, THEN conjunct2, THEN conjunct2, THEN conjunct2, THEN conjunct2,
             THEN conjunct2, THEN conjunct2, THEN mp] by simp
  ultimately show ?thesis
    using st mm sw g SimonSays_initial_tick QuickReaction_initial_tick touch0_first fire_wrong
    by simp
qed

text \<open>
  Claim C3 as stated fails: after a wrong tap, the next tick of BallGame runs its Init phase
  and calls \<^verbatim>\<open>setScore(0)\<close>, which takes a score of 3 to 0.
\<close>

theorem ball_game_init_resets_score:
  "BallGame_fireTimeout balls_touch1 2500 0 = (balls_failed, [])
   \<and> gameStateRef balls_failed = Init
   \<and> BallGame_detectFunction balls_failed (example_frame 2516 None 0) =
       Inr (balls_failed\<lparr>ballsRef := [(30, 30), (30, 30), (30, 30), (30, 30)],
                         sequenceRef := [0], flashIndexRef := 0, lastTimeRef := 2516,
                         gameStateRef := Show\<rparr>, [SetTo 0])
   \<and> applyScores [SetTo 0] 3 = 0
   \<and> \<not> 3 \<le> applyScores [SetTo 0] 3"
proof -
  have "gameStateRef balls_failed = Init" by (simp add: balls_failed_def)
  moreover have "applyScores [SetTo 0] 3 = 0" by (simp add: applyScores_def)
  ultimately show ?thesis using fire_wrong balls_failed_tick by simp
qed

subsection \<open>C4\<close>

text \<open>
  Claim C4. The claim has at most one feedback timeout pending during one continuous touch
  of a ball, ball 0 included. The guard \<^verbatim>\<open>!tappedIdxRef.current\<close> is true of the index
  \<open>0\<close> as it is of \<^verbatim>\<open>null\<close>: while the fingertip rests on ball 0 every frame
  schedules a further timeout, two frames leave two pending, and each of them, once run,
  emits an increment. On ball 1 the second frame schedules nothing.
\<close>

theorem ball_zero_schedules_twice:
  "BallGame_detectFunction balls_input
       (example_frame 2000 (Some [pointer_hand (1 / 10) (1 / 10)]) 0) = Inr (balls_touch0_once, [])
   \<and> pendingTimeouts balls_touch0_once = [2500]
   \<and> BallGame_detectFunction balls_touch0_once
       (example_frame 2016 (Some [pointer_hand (1 / 10) (1 / 10)]) 0) = Inr (balls_touch0_twice, [])
   \<and> pendingTimeouts balls_touch0_twice = [2500, 2516]
   \<and> snd (BallGame_fireTimeout balls_touch0_twice 2500 0) = [Increment]
   \<and> snd (BallGame_fireTimeout (fst (BallGame_fireTimeout balls_touch0_twice 2500 0)) 2516 0)
       = [Increment]
   \<and> BallGame_detectFunction balls_input
       (example_frame 2000 (Some [pointer_hand (3 / 10) (1 / 10)]) 0) = Inr (balls_touch1, [])
   \<and> BallGame_detectFunction balls_touch1
       (example_frame 2016 (Some [pointer_hand (3 / 10) (1 / 10)]) 0) = Inr (balls_touch1, [])
   \<and> pendingTimeouts balls_touch1 = [2500]"
proof -
  have p: "pendingTimeouts balls_touch0_once = [2500]"
    "pendingTimeouts balls_touch0_twice = [2500, 2516]"
    "pendingTimeouts balls_touch1 = [2500]"
    by (simp_all add: balls_touch0_once_def balls_touch0_twice_def balls_touch1_def)
  have f: "snd (BallGame_fireTimeout balls_touch0_twice 2500 0) = [Increment]"
    "snd (BallGame_fireTimeout (fst (BallGame_fireTimeout balls_touch0_twice 2500 0)) 2516 0)
       = [Increment]"
    unfolding fire_first fst_conv snd_conv fire_second by simp_all
  from touch0_first touch0_second touch1_first touch1_second p f show ?thesis by simp
qed

subsection \<open>C5\<close>

text \<open>
  Claim C5. The claim has the sequence of MemoryMatch grow by one gesture each time it is
  completed. The code clears the sequence on completion and the next frame draws a new
  sequence of two gestures, whatever the length of the completed one: completing a sequence
  of two is followed by a sequence of two.
\<close>

theorem sequence_length_stays_2:
  "length (currentSequenceRef memory_second_step) = 2
   \<and> MemoryMatch_detectFunction memory_second_step (example_frame 1000 (Some [two_hand]) 0)
       = Inr (\<lparr>currentSequenceRef = [], currentStepRef = 0, mm_roundTimerRef = 0\<rparr>, [Increment])
   \<and> MemoryMatch_detectFunction
         \<lparr>currentSequenceRef = [], currentStepRef = 0, mm_roundTimerRef = 0\<rparr>
         (example_frame 1016 None (3 / 10))
       = Inr (\<lparr>currentSequenceRef = [Some Two, Some Two], currentStepRef = 0,
               mm_roundTimerRef = 1016\<rparr>, [])
   \<and> length [Some Two, Some Two] = 2"
  using memory_second_step_tick memory_restart_tick by (simp add: memory_second_step_def)

subsection \<open>C6\<close>




subsection \<open>C7\<close>

text \<open>
  Claim C7, as amended. The rules of SimonSays' \<^verbatim>\<open>checkGesture\<close> are mutually exclusive:
  no hand is accepted for two distinct gestures. The rules of MemoryMatch's
  \<^verbatim>\<open>checkGesture\<close> are mutually exclusive for every pair of distinct gestures other
  than thumbs-up and fist.
\<close>

theorem gesture_rules_exclusive:
  "(g1 \<noteq> g2 \<and> SimonSays_checkGesture landmarks (Some g1) = Inr True
      \<longrightarrow> SimonSays_checkGesture landmarks (Some g2) \<noteq> Inr True)
   \<and> (g1 \<noteq> g2 \<and> {g1, g2} \<noteq> {ThumbsUp, Fist}
        \<and> MemoryMatch_checkGesture landmarks (Some g1) = Inr True
      \<longrightarrow> MemoryMatch_checkGesture landmarks (Some g2) \<noteq> Inr True)"
  using SimonSays_exclusive MemoryMatch_exclusive by blast

theorem gesture_rules_exclusive_witness:
  "SimonSays_checkGesture open_hand (Some Open) = Inr True
   \<and> SimonSays_checkGesture open_hand (Some Two) \<noteq> Inr True
   \<and> MemoryMatch_checkGesture open_hand (Some Open) = Inr True
   \<and> MemoryMatch_checkGesture open_hand (Some Two) \<noteq> Inr True
   \<and> length open_hand = 21"
proof -
  have a: "Open \<noteq> Two \<and> SimonSays_checkGesture open_hand (Some Open) = Inr True"
    by (simp add: SimonSays_open_hand)
  have b: "Open \<noteq> Two \<and> {Open, Two} \<noteq> {ThumbsUp, Fist}
        \<and> MemoryMatch_checkGesture open_hand (Some Open) = Inr True"
    by (simp add: MemoryMatch_open_hand doubleton_eq_iff)
  have "SimonSays_checkGesture open_hand (Some Two) \<noteq> Inr True"
    using gesture_rules_exclusive [of Open Two open_hand, THEN conjunct1, THEN mp, OF a] .
  moreover have "MemoryMatch_checkGesture open_hand (Some Two) \<noteq> Inr True"
    using gesture_rules_exclusive [of Open Two open_hand, THEN conjunct2, THEN mp, OF b] .
  ultimately show ?thesis
    using a b by (simp add: open_hand_def length_hand_of)
qed

text \<open>
  Claim C7 as stated fails: MemoryMatch's \<^verbatim>\<open>checkGesture\<close> accepts the hand
  \<open>thumb_fist_hand\<close> of 21 landmarks both as thumbs-up and as fist.
\<close>

theorem thumbs_up_and_fist_overlap:
  "length thumb_fist_hand = 21
   \<and> ThumbsUp \<noteq> Fist
   \<and> MemoryMatch_checkGesture thumb_fist_hand (Some ThumbsUp) = Inr True
   \<and> MemoryMatch_checkGesture thumb_fist_hand (Some Fist) = Inr True"
proof -
  have "length thumb_fist_hand = 21"
    by (simp add: thumb_fist_hand_def length_hand_of)
  with MemoryMatch_thumb_fist_hand show ?thesis by simp
qed

subsection \<open>C8\<close>

text \<open>
  Claim C8, as amended. On a tick with no hand detected, no variant emits an increment of
  the score, adds a checkpoint to a hit-set or advances a cursor. ShapeTracing, in every
  state it reaches from its initial refs, emits nothing and leaves the hit-set as it is.
  MemoryMatch emits nothing and leaves its step cursor as it is, unless the tick starts a new
  round (no sequence yet, or the round time is over), which sets the cursor to 0.
  SimonSays, SwipeChallenge and QuickReaction emit nothing and do their round bookkeeping
  only. BallGame schedules no timeout, leaves its input index as it is or sets it to 0
  (Init phase, end of the Show phase), and emits nothing but the reset of the score to 0 of
  its Init phase.
\<close>

theorem no_hand_tick:
  "firstHand f = None \<longrightarrow>
     (ShapeTracing_run ShapeTracing_initial before = Inr (st, us0) \<longrightarrow>
        ShapeTracing_detectFunction st f = Inr (ShapeTracing_chooseShape st f, [])
        \<and> checkpointsHitRef (ShapeTracing_chooseShape st f) = checkpointsHitRef st)
     \<and> MemoryMatch_detectFunction mm f = Inr (MemoryMatch_startRound mm f, [])
     \<and> currentStepRef (MemoryMatch_startRound mm f) =
         (if length (currentSequenceRef mm) = 0 \<or>
             frame_now f - mm_roundTimerRef mm > MemoryMatch_ROUND_TIME * 1000
          then 0 else currentStepRef mm)
     \<and> SimonSays_detectFunction ss f = Inr (SimonSays_startRound ss f, [])
     \<and> SwipeChallenge_detectFunction sw f = Inr (SwipeChallenge_startRound sw f, [])
     \<and> QuickReaction_detectFunction qr f = Inr (QuickReaction_spawn qr f, [])
     \<and> BallGame_detectFunction bg f =
         Inr (BallGame_show (fst (BallGame_init bg f)) f,
              if gameStateRef bg = Init then [SetTo 0] else [])
     \<and> inputIndexRef (BallGame_show (fst (BallGame_init bg f)) f) \<in> {inputIndexRef bg, 0}
     \<and> pendingTimeouts (BallGame_show (fst (BallGame_init bg f)) f) = pendingTimeouts bg"
proof (intro impI conjI)
  assume n: "firstHand f = None"
  show "ShapeTracing_detectFunction st f = Inr (ShapeTracing_chooseShape st f, [])"
    if "ShapeTracing_run ShapeTracing_initial before = Inr (st, us0)"
    using ShapeTracing_no_hand_reachable [OF that n] by simp
  show "checkpointsHitRef (ShapeTracing_chooseShape st f) = checkpointsHitRef st"
    if "ShapeTracing_run ShapeTracing_initial before = Inr (st, us0)"
    using ShapeTracing_no_hand_reachable [OF that n] by simp
  show "MemoryMatch_detectFunction mm f = Inr (MemoryMatch_startRound mm f, [])"
    by (rule MemoryMatch_no_hand [OF n])
  show "currentStepRef (MemoryMatch_startRound mm f) =
         (if length (currentSequenceRef mm) = 0 \<or>
             frame_now f - mm_roundTimerRef mm > MemoryMatch_ROUND_TIME * 1000
          then 0 else currentStepRef mm)"
    by (rule MemoryMatch_startRound_step)
  show "SimonSays_detectFunction ss f = Inr (SimonSays_startRound ss f, [])"
    by (rule SimonSays_no_hand [OF n])
  show "SwipeChallenge_detectFunction sw f = Inr (SwipeChallenge_startRound sw f, [])"
    by (rule SwipeChallenge_no_hand [OF n])
  show "QuickReaction_detectFunction qr f = Inr (QuickReaction_spawn qr f, [])"
    by (rule QuickReaction_no_hand [OF n])
  show "BallGame_detectFunction bg f =
         Inr (BallGame_show (fst (BallGame_init bg f)) f,
              if gameStateRef bg = Init then [SetTo 0] else [])"
    unfolding BallGame_no_hand [OF n] by (simp add: BallGame_init_def Let_def)
  show "inputIndexRef (BallGame_show (fst (BallGame_init bg f)) f) \<in> {inputIndexRef bg, 0}"
    using BallGame_init_show_frame [of bg f] by blast
  show "pendingTimeouts (BallGame_show (fst (BallGame_init bg f)) f) = pendingTimeouts bg"
    using BallGame_init_show_frame [of bg f] by blast
qed

theorem no_hand_tick_witness:
  "firstHand (example_frame 1000 None (3 / 10)) = None
   \<and> ShapeTracing_run ShapeTracing_initial [example_frame 0 None 0.7] = Inr (square0, [])
   \<and> ShapeTracing_detectFunction square0 (example_frame 1000 None (3 / 10)) = Inr (square0, [])
   \<and> MemoryMatch_detectFunction memory_second_step (example_frame 1000 None (3 / 10))
       = Inr (memory_second_step, [])
   \<and> BallGame_detectFunction balls_input (example_frame 1000 None (3 / 10))
       = Inr (balls_input, [])
   \<and> SimonSays_detectFunction (SimonSays_initial 0) (example_frame 1000 None (3 / 10))
       = Inr (SimonSays_startRound (SimonSays_initial 0) (example_frame 1000 None (3 / 10)), [])
   \<and> SwipeChallenge_detectFunction swipe_right_pending (example_frame 1000 None (3 / 10))
       = Inr (SwipeChallenge_startRound swipe_right_pending (example_frame 1000 None (3 / 10)), [])
   \<and> QuickReaction_detectFunction (QuickReaction_initial 0) (example_frame 1000 None (3 / 10))
       = Inr (QuickReaction_spawn (QuickReaction_initial 0) (example_frame 1000 None (3 / 10)), [])"
proof -
  let ?f = "example_frame 1000 None (3 / 10)"
  have n: "firstHand ?f = None" by (rule firstHand_example_None)
  note t = no_hand_tick [of ?f "[example_frame 0 None 0.7]" square0 "[]" memory_second_step
      "SimonSays_initial 0" swipe_right_pending "QuickReaction_initial 0" balls_input,
      THEN mp, OF n]
  have st: "ShapeTracing_detectFunction square0 ?f = Inr (ShapeTracing_chooseShape square0 ?f, [])"
    using t [THEN conjunct1, THEN mp, OF square0_chosen, THEN conjunct1] .
  have mm: "MemoryMatch_detectFunction memory_second_step ?f
      = Inr (MemoryMatch_startRound memory_second_step ?f, [])"
    using t [THEN conjunct2, THEN conjunct1] .
  have ss: "SimonSays_detectFunction (SimonSays_initial 0) ?f
      = Inr (SimonSays_startRound (SimonSays_initial 0) ?f, [])"
    using t [THEN conjunct2, THEN conjunct2, THEN conjunct2, THEN conjunct1] .
  have sw: "SwipeChallenge_detectFunction swipe_right_pending ?f
      = Inr (SwipeChallenge_startRound swipe_right_pending ?f, [])"
    using t [THEN conjunct2, THEN conjunct2, THEN conjunct2, THEN conjunct2, THEN conjunct1] .
  have qr: "QuickReaction_detectFunction (QuickReaction_initial 0) ?f
      = Inr (QuickReaction_spawn (QuickReaction_initial 0) ?f, [])"
    using t [THEN conjunct2, THEN conjunct2, THEN conjunct2, THEN conjunct2, THEN conjunct2,
             THEN conjunct1] .
  from n st mm ss sw qr square0_chosen square0_no_hand memory_second_step_waits
    balls_input_no_hand
  show ?thesis by simp
qed

text \<open>
  Claim C8 as stated fails: in MemoryMatch, a tick with no hand detected on which the round
  time is over replaces the sequence and takes the step cursor from 1 to 0.
\<close>

theorem no_hand_tick_resets_cursor:
  "firstHand (example_frame 8001 None (3 / 10)) = None
   \<and> currentStepRef memory_second_step = 1
   \<and> MemoryMatch_detectFunction memory_second_step (example_frame 8001 None (3 / 10))
       = Inr (\<lparr>currentSequenceRef = [Some Two, Some Two], currentStepRef = 0,
               mm_roundTimerRef = 8001\<rparr>, [])"
proof -
  have "currentStepRef memory_second_step = 1" by (simp add: memory_second_step_def)
  with firstHand_example_None memory_second_step_timeout show ?thesis by simp
qed

subsection \<open>C9\<close>

text \<open>
  Claim C9. In SwipeChallenge the displacement \<open>(100, 10)\<close> classifies as right and
  \<open>(10, 100)\<close> as down: the dominant axis is horizontal when \<open>|dx| > |dy|\<close>, then the
  sign decides. For a frame of a running round whose fingertip is more than 80 away from
  the swipe start, the score update is one increment exactly when the classified direction
  equals the prompt and nothing otherwise; either way the swipe start and the prompt are
  cleared and the round timer restarts. The next frame then begins a new round and emits
  nothing: with \<^verbatim>\<open>Math.random()\<close> in \<open>[0, 1)\<close> it installs one of the four directions
  as the new prompt (left, right, up, down for the four quarters of the interval), sets the
  round timer to its time, and records the fingertip, if there is one, as the new swipe
  start.
\<close>

theorem swipe_classified_and_scored:
  "getSwipeDirection 100 10 = Right
   \<and> getSwipeDirection 10 100 = Down
   \<and> (\<bar>deltaY\<bar> < \<bar>deltaX\<bar> \<longrightarrow>
        getSwipeDirection deltaX deltaY = (if 0 < deltaX then Right else Left))
   \<and> (\<bar>deltaX\<bar> \<le> \<bar>deltaY\<bar> \<longrightarrow>
        getSwipeDirection deltaX deltaY = (if 0 < deltaY then Down else Up))
   \<and> (firstHand f = Some landmarks \<and> item landmarks 8 = Some tip
        \<and> currentDirectionRef s = Some prompt
        \<and> \<not> frame_now f - sw_roundTimerRef s > SwipeChallenge_ROUND_TIME * 1000
        \<and> swipeStartRef s = Some (startX, startY, startTime)
        \<and> hypot (lx tip * real (canvas_width f) - startX)
                 (ly tip * real (canvas_height f) - startY) > 80
      \<longrightarrow> (\<exists>s' us.
             SwipeChallenge_detectFunction s f = Inr (s', us)
             \<and> (us = [Increment] \<or> us = [])
             \<and> (us = [Increment] \<longleftrightarrow>
                  getSwipeDirection (lx tip * real (canvas_width f) - startX)
                    (ly tip * real (canvas_height f) - startY) = prompt)
             \<and> swipeStartRef s' = None
             \<and> currentDirectionRef s' = None
             \<and> sw_roundTimerRef s' = frame_now f
             \<and> (\<forall>f' s'' us'.
                   SwipeChallenge_detectFunction s' f' = Inr (s'', us') \<longrightarrow>
                   currentDirectionRef s'' = randomDirection (math_random f' 0)
                   \<and> sw_roundTimerRef s'' = frame_now f' \<and> us' = [])
             \<and> (\<forall>f'. firstHand f' = None
                     \<and> 0 \<le> math_random f' 0 \<and> math_random f' 0 < 1 \<longrightarrow>
                   (\<exists>d. d \<in> set DIRECTIONS
                      \<and> SwipeChallenge_detectFunction s' f' =
                          Inr (\<lparr>currentDirectionRef = Some d, swipeStartRef = None,
                                sw_roundTimerRef = frame_now f'\<rparr>, [])))
             \<and> (\<forall>f' landmarks' tip'. firstHand f' = Some landmarks'
                     \<and> item landmarks' 8 = Some tip'
                     \<and> 0 \<le> math_random f' 0 \<and> math_random f' 0 < 1 \<longrightarrow>
                   (\<exists>d. d \<in> set DIRECTIONS
                      \<and> SwipeChallenge_detectFunction s' f' =
                          Inr (\<lparr>currentDirectionRef = Some d,
                                swipeStartRef = Some (lx tip' * real (canvas_width f'),
                                                      ly tip' * real (canvas_height f'), frame_now f'),
                                sw_roundTimerRef = frame_now f'\<rparr>, [])))))
   \<and> (0 \<le> r \<and> r < 1 \<longrightarrow>
        randomDirection r =
          Some (if r < 1 / 4 then Left else if r < 1 / 2 then Right
                else if r < 3 / 4 then Up else Down))"
proof (intro conjI impI)
  show "getSwipeDirection 100 10 = Right" by (simp add: getSwipeDirection_def)
  show "getSwipeDirection 10 100 = Down" by (simp add: getSwipeDirection_def)
  show "getSwipeDirection deltaX deltaY = (if 0 < deltaX then Right else Left)"
    if "\<bar>deltaY\<bar> < \<bar>deltaX\<bar>" using that by (simp add: getSwipeDirection_def)
  show "getSwipeDirection deltaX deltaY = (if 0 < deltaY then Down else Up)"
    if "\<bar>deltaX\<bar> \<le> \<bar>deltaY\<bar>" using that by (simp add: getSwipeDirection_def)
  show "randomDirection r =
          Some (if r < 1 / 4 then Left else if r < 1 / 2 then Right
                else if r < 3 / 4 then Up else Down)"
    if "0 \<le> r \<and> r < 1" using that randomDirection_band by blast
next
  assume a: "firstHand f = Some landmarks \<and> item landmarks 8 = Some tip
        \<and> currentDirectionRef s = Some prompt
        \<and> \<not> frame_now f - sw_roundTimerRef s > SwipeChallenge_ROUND_TIME * 1000
        \<and> swipeStartRef s = Some (startX, startY, startTime)
        \<and> hypot (lx tip * real (canvas_width f) - startX)
                 (ly tip * real (canvas_height f) - startY) > 80"
  let ?s' = "s\<lparr>currentDirectionRef := None, swipeStartRef := None, sw_roundTimerRef := frame_now f\<rparr>"
  let ?us = "if getSwipeDirection (lx tip * real (canvas_width f) - startX)
               (ly tip * real (canvas_height f) - startY) = prompt
          then [Increment] else []"
  from a have a1: "firstHand f = Some landmarks" and a2: "item landmarks 8 = Some tip"
    and a3: "currentDirectionRef s = Some prompt"
    and a4: "\<not> frame_now f - sw_roundTimerRef s > SwipeChallenge_ROUND_TIME * 1000"
    and a5: "swipeStartRef s = Some (startX, startY, startTime)"
    and a6: "hypot (lx tip * real (canvas_width f) - startX)
                 (ly tip * real (canvas_height f) - startY) > 80"
    by simp_all
  have d: "SwipeChallenge_detectFunction s f = Inr (?s', ?us)"
    by (rule SwipeChallenge_swipe [OF a1 a2 a3 a4 a5 a6])
  have c: "currentDirectionRef ?s' = None" by simp
  have n: "\<forall>f' s'' us'.
                   SwipeChallenge_detectFunction ?s' f' = Inr (s'', us') \<longrightarrow>
                   currentDirectionRef s'' = randomDirection (math_random f' 0)
                   \<and> sw_roundTimerRef s'' = frame_now f' \<and> us' = []"
    using SwipeChallenge_next_prompt [of ?s'] by simp
  have n0: "\<exists>d. d \<in> set DIRECTIONS
                      \<and> SwipeChallenge_detectFunction ?s' f' =
                          Inr (\<lparr>currentDirectionRef = Some d, swipeStartRef = None,
                                sw_roundTimerRef = frame_now f'\<rparr>, [])"
    if "firstHand f' = None \<and> 0 \<le> math_random f' 0 \<and> math_random f' 0 < 1" for f'
  proof -
    from that randomDirection_in_DIRECTIONS [of "math_random f' 0"] obtain d where
      d: "d \<in> set DIRECTIONS" "randomDirection (math_random f' 0) = Some d" by blast
    from that have fh: "firstHand f' = None" by simp
    have "SwipeChallenge_detectFunction ?s' f' =
        Inr (\<lparr>currentDirectionRef = Some d, swipeStartRef = None,
              sw_roundTimerRef = frame_now f'\<rparr>, [])"
      unfolding SwipeChallenge_next_no_hand [OF c fh] d(2) by (cases s) simp
    with d(1) show ?thesis by blast
  qed
  have n1: "\<exists>d. d \<in> set DIRECTIONS
                      \<and> SwipeChallenge_detectFunction ?s' f' =
                          Inr (\<lparr>currentDirectionRef = Some d,
                                swipeStartRef = Some (lx tip' * real (canvas_width f'),
                                                      ly tip' * real (canvas_height f'), frame_now f'),
                                sw_roundTimerRef = frame_now f'\<rparr>, [])"
    if "firstHand f' = Some landmarks' \<and> item landmarks' 8 = Some tip'
                     \<and> 0 \<le> math_random f' 0 \<and> math_random f' 0 < 1" for f' landmarks' tip'
  proof -
    from that randomDirection_in_DIRECTIONS [of "math_random f' 0"] obtain d where
      d: "d \<in> set DIRECTIONS" "randomDirection (math_random f' 0) = Some d" by blast
    from that have h: "firstHand f' = Some landmarks'" "item landmarks' 8 = Some tip'" by simp_all
    have "SwipeChallenge_detectFunction ?s' f' =
        Inr (\<lparr>currentDirectionRef = Some d,
              swipeStartRef = Some (lx tip' * real (canvas_width f'),
                                    ly tip' * real (canvas_height f'), frame_now f'),
              sw_roundTimerRef = frame_now f'\<rparr>, [])"
      unfolding SwipeChallenge_next_tip [OF c h] d(2) by (cases s) simp
    with d(1) show ?thesis by blast
  qed
  have u1: "?us = [Increment] \<or> ?us = []" by simp
  have u2: "?us = [Increment] \<longleftrightarrow>
                  getSwipeDirection (lx tip * real (canvas_width f) - startX)
                    (ly tip * real (canvas_height f) - startY) = prompt" by simp
  have c1: "swipeStartRef ?s' = None" and c3: "sw_roundTimerRef ?s' = frame_now f" by simp_all
  from n0 have n0': "\<forall>f'. firstHand f' = None
                     \<and> 0 \<le> math_random f' 0 \<and> math_random f' 0 < 1 \<longrightarrow>
                   (\<exists>d. d \<in> set DIRECTIONS
                      \<and> SwipeChallenge_detectFunction ?s' f' =
                          Inr (\<lparr>currentDirectionRef = Some d, swipeStartRef = None,
                                sw_roundTimerRef = frame_now f'\<rparr>, []))"
    by blast
  from n1 have n1': "\<forall>f' landmarks' tip'. firstHand f' = Some landmarks'
                     \<and> item landmarks' 8 = Some tip'
                     \<and> 0 \<le> math_random f' 0 \<and> math_random f' 0 < 1 \<longrightarrow>
                   (\<exists>d. d \<in> set DIRECTIONS
                      \<and> SwipeChallenge_detectFunction ?s' f' =
                          Inr (\<lparr>currentDirectionRef = Some d,
                                swipeStartRef = Some (lx tip' * real (canvas_width f'),
                                                      ly tip' * real (canvas_height f'), frame_now f'),
                                sw_roundTimerRef = frame_now f'\<rparr>, []))"
    by blast
  show "\<exists>s' us.
             SwipeChallenge_detectFunction s f = Inr (s', us)
             \<and> (us = [Increment] \<or> us = [])
             \<and> (us = [Increment] \<longleftrightarrow>
                  getSwipeDirection (lx tip * real (canvas_width f) - startX)
                    (ly tip * real (canvas_height f) - startY) = prompt)
             \<and> swipeStartRef s' = None
             \<and> currentDirectionRef s' = None
             \<and> sw_roundTimerRef s' = frame_now f
             \<and> (\<forall>f' s'' us'.
                   SwipeChallenge_detectFunction s' f' = Inr (s'', us') \<longrightarrow>
                   currentDirectionRef s'' = randomDirection (math_random f' 0)
                   \<and> sw_roundTimerRef s'' = frame_now f' \<and> us' = [])
             \<and> (\<forall>f'. firstHand f' = None
                     \<and> 0 \<le> math_random f' 0 \<and> math_random f' 0 < 1 \<longrightarrow>
                   (\<exists>d. d \<in> set DIRECTIONS
                      \<and> SwipeChallenge_detectFunction s' f' =
                          Inr (\<lparr>currentDirectionRef = Some d, swipeStartRef = None,
                                sw_roundTimerRef = frame_now f'\<rparr>, [])))
             \<and> (\<forall>f' landmarks' tip'. firstHand f' = Some landmarks'
                     \<and> item landmarks' 8 = Some tip'
                     \<and> 0 \<le> math_random f' 0 \<and> math_random f' 0 < 1 \<longrightarrow>
                   (\<exists>d. d \<in> set DIRECTIONS
                      \<and> SwipeChallenge_detectFunction s' f' =
                          Inr (\<lparr>currentDirectionRef = Some d,
                                swipeStartRef = Some (lx tip' * real (canvas_width f'),
                                                      ly tip' * real (canvas_height f'), frame_now f'),
                                sw_roundTimerRef = frame_now f'\<rparr>, [])))"
    apply (rule exI [of _ ?s'])
    apply (rule exI [of _ ?us])
    apply (intro conjI)
            apply (rule d)
           apply (rule u1)
          apply (rule u2)
         apply (rule c1)
        apply (rule c)
       apply (rule c3)
      apply (rule n)
     apply (rule n0')
    apply (rule n1')
    done
qed

theorem swipe_classified_and_scored_witness:
  "SwipeChallenge_detectFunction swipe_right_pending
       (example_frame 100 (Some [pointer_hand (1 / 5) (51 / 100)]) 0)
     = Inr (\<lparr>currentDirectionRef = None, swipeStartRef = None, sw_roundTimerRef = 100\<rparr>, [Increment])
   \<and> getSwipeDirection (1 / 5 * 1000 - 100) (51 / 100 * 1000 - 500) = Right
   \<and> hypot (1 / 5 * 1000 - 100) (51 / 100 * 1000 - 500) > 80
   \<and> SwipeChallenge_detectFunction
         \<lparr>currentDirectionRef = None, swipeStartRef = None, sw_roundTimerRef = 100\<rparr>
         (example_frame 116 None (3 / 10))
       = Inr (\<lparr>currentDirectionRef = Some Right, swipeStartRef = None, sw_roundTimerRef = 116\<rparr>, [])"
proof -
  let ?f = "example_frame 100 (Some [pointer_hand (1 / 5) (51 / 100)]) 0"
  let ?f' = "example_frame 116 None (3 / 10)"
  let ?tip = "\<lparr>lx = 1 / 5, ly = 51 / 100\<rparr>"
  have h: "hypot (1 / 5 * 1000 - 100) (51 / 100 * 1000 - 500) > 80"
    by (simp add: hypot_greater_iff)
  have g: "getSwipeDirection (1 / 5 * 1000 - 100) (51 / 100 * 1000 - 500) = Right"
    by (simp add: getSwipeDirection_def)
  have a1: "firstHand ?f = Some (pointer_hand (1 / 5) (51 / 100))"
    by (rule firstHand_example)
  have a2: "item (pointer_hand (1 / 5) (51 / 100)) 8 = Some ?tip"
    by (rule item_pointer_hand)
  have a3: "currentDirectionRef swipe_right_pending = Some Right"
    and a5: "swipeStartRef swipe_right_pending = Some (100, 500, 0)"
    by (simp_all add: swipe_right_pending_def)
  have a4: "\<not> frame_now ?f - sw_roundTimerRef swipe_right_pending > SwipeChallenge_ROUND_TIME * 1000"
    by (simp add: swipe_right_pending_def example_frame_def SwipeChallenge_ROUND_TIME_def)
  have a6: "hypot (lx ?tip * real (canvas_width ?f) - 100)
                 (ly ?tip * real (canvas_height ?f) - 500) > 80"
    using h by (simp add: example_frame_def)
  note t = swipe_classified_and_scored
    [of _ _ ?f "pointer_hand (1 / 5) (51 / 100)" ?tip swipe_right_pending Right 100 500 0 "3 / 10"]
  from t [THEN conjunct2, THEN conjunct2, THEN conjunct2, THEN conjunct2, THEN conjunct1, THEN mp,
     OF conjI [OF a1 conjI [OF a2 conjI [OF a3 conjI [OF a4 conjI [OF a5 a6]]]]]]
  obtain s' us where
    r: "SwipeChallenge_detectFunction swipe_right_pending ?f = Inr (s', us)"
    and u: "us = [Increment] \<longleftrightarrow>
                  getSwipeDirection (lx ?tip * real (canvas_width ?f) - 100)
                    (ly ?tip * real (canvas_height ?f) - 500) = Right"
    and s: "swipeStartRef s' = None" "currentDirectionRef s' = None"
       "sw_roundTimerRef s' = frame_now ?f"
    and nx: "\<forall>f' s'' us'.
                   SwipeChallenge_detectFunction s' f' = Inr (s'', us') \<longrightarrow>
                   currentDirectionRef s'' = randomDirection (math_random f' 0)
                   \<and> sw_roundTimerRef s'' = frame_now f' \<and> us' = []"
    and n0: "\<forall>f'. firstHand f' = None
                     \<and> 0 \<le> math_random f' 0 \<and> math_random f' 0 < 1 \<longrightarrow>
                   (\<exists>d. d \<in> set DIRECTIONS
                      \<and> SwipeChallenge_detectFunction s' f' =
                          Inr (\<lparr>currentDirectionRef = Some d, swipeStartRef = None,
                                sw_roundTimerRef = frame_now f'\<rparr>, []))"
    by blast
  have "getSwipeDirection (lx ?tip * real (canvas_width ?f) - 100)
                    (ly ?tip * real (canvas_height ?f) - 500) = Right"
    using g by (simp add: example_frame_def)
  with u have us: "us = [Increment]" by simp
  have s': "s' = \<lparr>currentDirectionRef = None, swipeStartRef = None, sw_roundTimerRef = 100\<rparr>"
    using s by (cases s') (simp add: example_frame_def)
  have f': "firstHand ?f' = None \<and> 0 \<le> math_random ?f' 0 \<and> math_random ?f' 0 < 1"
    by (simp add: firstHand_example_None) (simp add: example_frame_def)
  from n0 [rule_format, OF f'] obtain d where
    d: "SwipeChallenge_detectFunction s' ?f' =
          Inr (\<lparr>currentDirectionRef = Some d, swipeStartRef = None,
                sw_roundTimerRef = frame_now ?f'\<rparr>, [])"
    by blast
  from nx [rule_format, OF d] have "Some d = randomDirection (math_random ?f' 0)" by simp
  moreover have "randomDirection (3 / 10) = Some Right"
    using t [THEN conjunct2, THEN conjunct2, THEN conjunct2, THEN conjunct2, THEN conjunct2] by simp
  ultimately have "d = Right" by (simp add: example_frame_def)
  with d s' have "SwipeChallenge_detectFunction
         \<lparr>currentDirectionRef = None, swipeStartRef = None, sw_roundTimerRef = 100\<rparr> ?f'
       = Inr (\<lparr>currentDirectionRef = Some Right, swipeStartRef = None, sw_roundTimerRef = 116\<rparr>, [])"
    by (simp add: example_frame_def)
  with r us s' g h show ?thesis by simp
qed

subsection \<open>C10\<close>

text \<open>
  Claim C10, as amended. Recording checkpoint hits is idempotent. When every checkpoint
  within \<^verbatim>\<open>TOLERANCE\<close> of the fingertip is already in the hit-set, the hit test of the
  circle and that of the square leave the set, and so its size, unchanged; in particular
  testing the same fingertip position a second time changes nothing.
\<close>

theorem checkpoint_hits_idempotent:
  "((\<forall>i < CHECKPOINTS.
        hypot (fst (circleCheckpoint cx cy r i) - tx) (snd (circleCheckpoint cx cy r i) - ty) < TOLERANCE
        \<longrightarrow> i \<in> S)
      \<longrightarrow> checkCircleHit cx cy r tx ty S = S \<and> card (checkCircleHit cx cy r tx ty S) = card S)
   \<and> ((\<forall>i < length (sides cx cy sz).
        hypot (fst (sides cx cy sz ! i) - tx) (snd (sides cx cy sz ! i) - ty) < TOLERANCE
        \<longrightarrow> i \<in> T)
      \<longrightarrow> checkSquareHit cx cy sz tx ty T = T \<and> card (checkSquareHit cx cy sz tx ty T) = card T)
   \<and> checkCircleHit cx cy r tx ty (checkCircleHit cx cy r tx ty S) = checkCircleHit cx cy r tx ty S
   \<and> checkSquareHit cx cy sz tx ty (checkSquareHit cx cy sz tx ty T) = checkSquareHit cx cy sz tx ty T"
proof (intro conjI impI)
  assume "\<forall>i < CHECKPOINTS.
        hypot (fst (circleCheckpoint cx cy r i) - tx) (snd (circleCheckpoint cx cy r i) - ty) < TOLERANCE
        \<longrightarrow> i \<in> S"
  then show c: "checkCircleHit cx cy r tx ty S = S"
    unfolding checkCircleHit_eq by auto
  then show "card (checkCircleHit cx cy r tx ty S) = card S" by simp
next
  assume "\<forall>i < length (sides cx cy sz).
        hypot (fst (sides cx cy sz ! i) - tx) (snd (sides cx cy sz ! i) - ty) < TOLERANCE
        \<longrightarrow> i \<in> T"
  then show c: "checkSquareHit cx cy sz tx ty T = T"
    unfolding checkSquareHit_eq by (auto simp: in_set_enumerate_eq)
  then show "card (checkSquareHit cx cy sz tx ty T) = card T" by simp
next
  show "checkCircleHit cx cy r tx ty (checkCircleHit cx cy r tx ty S) = checkCircleHit cx cy r tx ty S"
    unfolding checkCircleHit_eq by auto
next
  show "checkSquareHit cx cy sz tx ty (checkSquareHit cx cy sz tx ty T) = checkSquareHit cx cy sz tx ty T"
    unfolding checkSquareHit_eq by auto
qed

theorem checkpoint_hits_idempotent_witness:
  "checkSquareHit 500 500 600 200 200 {0, 4} = {0, 4}
   \<and> card (checkSquareHit 500 500 600 200 200 {0, 4}) = 2
   \<and> checkCircleHit 500 500 300 800 500 {0..<16} = {0..<16}
   \<and> card (checkCircleHit 500 500 300 800 500 {0..<16}) = 16
   \<and> hypot (fst (circleCheckpoint 500 500 300 0) - 800) (snd (circleCheckpoint 500 500 300 0) - 500) < TOLERANCE"
proof -
  have sq: "\<forall>i < length (sides 500 500 600).
        hypot (fst (sides 500 500 600 ! i) - 200) (snd (sides 500 500 600 ! i) - 200) < TOLERANCE
        \<longrightarrow> i \<in> {0, 4}"
    using sides_hits_200 by blast
  have ci: "\<forall>i < CHECKPOINTS.
        hypot (fst (circleCheckpoint 500 500 300 i) - 800) (snd (circleCheckpoint 500 500 300 i) - 500) < TOLERANCE
        \<longrightarrow> i \<in> {0..<16}"
    by (simp add: CHECKPOINTS_def)
  have z: "hypot (fst (circleCheckpoint 500 500 300 0) - 800) (snd (circleCheckpoint 500 500 300 0) - 500) < TOLERANCE"
    by (simp add: circleCheckpoint_0 hypot_def TOLERANCE_def)
  have c: "checkCircleHit 500 500 300 800 500 {0..<16} = {0..<16}"
    using checkpoint_hits_idempotent [of 500 500 300 800 500 "{0..<16}" 600 "{0, 4}",
        THEN conjunct1, THEN mp, OF ci, THEN conjunct1] .
  have s: "checkSquareHit 500 500 600 200 200 {0, 4} = {0, 4}"
    using checkpoint_hits_idempotent [of 500 500 300 200 200 "{0..<16}" 600 "{0, 4}",
        THEN conjunct2, THEN conjunct1, THEN mp, OF sq, THEN conjunct1] .
  from c s z show ?thesis by simp
qed

text \<open>
  Claim C10 as stated fails. On a canvas of 320 by 240 pixels the checkpoints of the square
  are 36 pixels apart. With checkpoint 5 at \<open>(124, 48)\<close> in the hit-set, a fingertip at
  \<open>(142, 48)\<close> is 18 pixels away from it, within \<^verbatim>\<open>TOLERANCE\<close>, and as near to
  checkpoint 6 at \<open>(160, 48)\<close>: testing it takes the hit-set from \<open>{5}\<close> to \<open>{5, 6}\<close>,
  from size 1 to size 2.
\<close>

theorem retest_adds_neighbour_checkpoint:
  "ShapeTracing_detectFunction ShapeTracing_initial (small_frame 0 None (7 / 10)) = Inr (square0, [])
   \<and> ShapeTracing_detectFunction square0 (small_frame 16 (Some [pointer_hand (31 / 80) (1 / 5)]) 0)
       = Inr (square5, [])
   \<and> checkpointsHitRef square5 = {5}
   \<and> sides 160 120 144 ! 5 = (124, 48)
   \<and> hypot (fst (sides 160 120 144 ! 5) - 142) (snd (sides 160 120 144 ! 5) - 48) < TOLERANCE
   \<and> checkSquareHit 160 120 144 142 48 (checkpointsHitRef square5) = {5, 6}
   \<and> card (checkpointsHitRef square5) = 1
   \<and> card (checkSquareHit 160 120 144 142 48 (checkpointsHitRef square5)) = 2
   \<and> ShapeTracing_detectFunction square5 (small_frame 32 (Some [pointer_hand (71 / 160) (1 / 5)]) 0)
       = Inr (\<lparr>shapeTypeRef = Some Square, checkpointsHitRef = {5, 6},
               trailPointsRef = [(124, 48, 16), (142, 48, 32)], drawingStartedRef = True\<rparr>, [])"
proof -
  have h: "checkpointsHitRef square5 = {5}" by (simp add: square5_def)
  have n: "sides 160 120 144 ! 5 = (124, 48)" by (simp add: sides_small)
  have d: "hypot (fst (sides 160 120 144 ! 5) - 142) (snd (sides 160 120 144 ! 5) - 48) < TOLERANCE"
    unfolding n by (simp add: hypot_less_iff TOLERANCE_def)
  have c: "checkSquareHit 160 120 144 142 48 (checkpointsHitRef square5) = {5, 6}"
    unfolding h by (rule csh_small_second)
  have k: "card (checkSquareHit 160 120 144 142 48 (checkpointsHitRef square5)) = 2"
    unfolding c by simp
  from square0_small_chosen square0_small_tick square5_tick h n d c k show ?thesis
    by simp
qed

end
